theory Spec2Isabelle
  imports Main "HOL-Library.Word"
begin

unbundle bit_operations_syntax

section \<open>C types, constants and the observable behaviour of a command\<close>

text \<open>
  The commands of culvert are C functions that call into the bridge, SoC and flash
  layers and into the C library. The embedding keeps the control flow of each command
  as it is written and makes two things explicit: the results of the calls a command
  makes (a record, the command's environment) and the calls it performs (a list of
  events, in program order). A command either returns a code to its caller or ends the
  process with \<open>exit\<close>.

  \<open>int\<close> of C is modelled as \<open>int\<close> (only small codes and counts are held in
  it), \<open>uint32_t\<close> as \<open>32 word\<close> and \<open>unsigned long\<close> as \<open>64 word\<close>: the LP64
  data model, on which the sections under \<open>#if ULONG_MAX > UINT32_MAX\<close> are compiled.
\<close>

type_synonym uint32_t = "32 word"
type_synonym ulong = "64 word"

definition UINT32_MAX :: ulong where
  "UINT32_MAX = 0xFFFFFFFF"

definition ULONG_MAX :: ulong where
  "ULONG_MAX = 0xFFFFFFFFFFFFFFFF"

definition EPERM :: int where "EPERM = 1"
definition EACCES :: int where "EACCES = 13"
definition ENODEV :: int where "ENODEV = 19"
definition EINVAL :: int where "EINVAL = 22"

definition EXIT_SUCCESS :: int where "EXIT_SUCCESS = 0"
definition EXIT_FAILURE :: int where "EXIT_FAILURE = 1"

text \<open>\<open>argp_error\<close> and \<open>argp_usage\<close> end the process with \<open>argp_err_exit_status\<close>,
  which is \<open>EX_USAGE\<close> of sysexits.h.\<close>

definition argp_err_exit_status :: int where
  "argp_err_exit_status = 64"

text \<open>ARGP_KEY_ERROR, the value that \<open>parse_opt_ram\<close> returns as an error code.\<close>

definition ARGP_KEY_ERROR :: int where
  "ARGP_KEY_ERROR = 0x1000005"

text \<open>struct soc_region: a bus address range.\<close>

record soc_region =
  start :: uint32_t
  length_r :: uint32_t

text \<open>struct connection_args (src/unnamed/part_001). A pointer that was never assigned is \<open>None\<close>.\<close>

record connection_args =
  interface :: "string option"
  ip :: "string option"
  username :: "string option"
  password :: "string option"
  port :: int

definition no_connection :: connection_args where
  "no_connection = \<lparr>interface = None, ip = None, username = None, password = None, port = 0\<rparr>"

text \<open>The calls a command performs that reach outside of it, in program order.\<close>

datatype event =
    HostInit int
  | HostInitNew connection_args
  | HostGetAhb
  | SocProbe
  | SdmcGetDram
  | SdmcGetVram
  | ScuWritel uint32_t uint32_t
  | SiphonIn ulong ulong
  | SiphonOut ulong ulong
  | ReadStdin nat
  | FlashInit
  | FlashRead uint32_t uint32_t
  | FlashWrite uint32_t int
  | FlashErase uint32_t uint32_t
  | DevmemInit
  | AhbAccess "string list"
  | PrivPrintUnprivileged
  | Perror string int
  | Stderr string
  | ArgpError string
  | ArgpUsage
  | RunCommand string "string list"
  | Call string

datatype outcome = Return int | Exit int

type_synonym behaviour = "event list \<times> outcome"

subsection \<open>The argp parser of the C library\<close>

text \<open>
  Every command parses its arguments with \<open>argp_parse\<close> under ARGP_IN_ORDER: the parser
  function of the command is called once for each option and each positional argument,
  in command-line order, and once with ARGP_KEY_END after the last of them. The parser
  function either goes on, or ends the process (\<open>argp_error\<close>, \<open>argp_usage\<close>,
  \<open>exit\<close>), or returns an error code; on an error code \<open>argp_parse\<close> stops parsing
  and returns that code, with ARGP_KEY_END never sent. \<open>state->arg_num\<close> counts the
  positional arguments that were parsed before the current one.
\<close>

datatype key = KEY_OPT char string | KEY_ARG string | KEY_END

text \<open>The keys that carry a positional argument: their number is the number of
  positional fields on the command line.\<close>

fun is_arg :: "key \<Rightarrow> bool" where
  "is_arg (KEY_ARG _) = True"
| "is_arg _ = False"

datatype 'a parsed =
    Continue 'a
  | Failed int 'a
  | Exited "event list" int

fun argp_keys :: "(key \<Rightarrow> nat \<Rightarrow> 'a \<Rightarrow> 'a parsed) \<Rightarrow> key list \<Rightarrow> nat \<Rightarrow> 'a \<Rightarrow> 'a parsed" where
  "argp_keys parser [] arg_num a = parser KEY_END arg_num a"
| "argp_keys parser (k # ks) arg_num a =
     (case parser k arg_num a of
        Continue a' \<Rightarrow>
          argp_keys parser ks (case k of KEY_ARG _ \<Rightarrow> Suc arg_num | _ \<Rightarrow> arg_num) a'
      | Failed e a' \<Rightarrow> Failed e a'
      | Exited evs st \<Rightarrow> Exited evs st)"

text \<open>The three calls that open every command but devmem, with their results.\<close>

record host_env =
  host_init_rc :: int
  host_get_ahb_ok :: bool
  soc_probe_rc :: int

text \<open>What the parsers use of the C library: \<open>strtoul\<close> gives the value, the
  \<open>errno\<close> it leaves and the number of characters it consumed (\<open>endp - arg\<close>).\<close>

record strtoul_result =
  ul_value :: ulong
  ul_errno :: int
  ul_consumed :: nat

record libc =
  strtoul :: "string \<Rightarrow> strtoul_result"
  atoi :: "string \<Rightarrow> int"

record key_args =
  key_arg_count :: int

section \<open>devmem: \<open>cmd_devmem\<close> (src/src/cmd/devmem.c)\<close>

record devmem_env =
  devmem_init_rc :: int
  priv_am_root :: bool
  ast_ahb_access_rc :: int
  devmem_destroy_rc :: int

text \<open>\<open>parse_opt\<close> of devmem.c reads \<open>state->argc\<close> and \<open>state->argv\<close>: the argument
  vector of the sub-command, whose element 0 is the command's name.\<close>

definition devmem_parse_opt :: "string list \<Rightarrow> key \<Rightarrow> nat \<Rightarrow> unit \<Rightarrow> unit parsed" where
  "devmem_parse_opt argv k arg_num a =
     (case k of
        KEY_ARG arg \<Rightarrow>
          (if arg_num = 0 \<and> arg \<noteq> ''read'' \<and> arg \<noteq> ''write''
           then Exited [ArgpUsage] argp_err_exit_status
           else Continue a)
      | KEY_END \<Rightarrow>
          (if length argv < 2 then Exited [ArgpUsage] argp_err_exit_status
           else if argv ! 1 = ''write'' \<and> length argv \<noteq> 4
           then Exited [ArgpUsage] argp_err_exit_status
           else Continue a)
      | KEY_OPT _ _ \<Rightarrow> Exited [ArgpError ''unknown option''] argp_err_exit_status)"

definition devmem_open :: "devmem_env \<Rightarrow> string list \<Rightarrow> behaviour" where
  "devmem_open env argv =
     (let rc = devmem_init_rc env in
      if rc < 0 then
        (let denied = (rc = - EACCES \<or> rc = - EPERM) in
         if denied \<and> \<not> priv_am_root env
         then ([DevmemInit, PrivPrintUnprivileged], Exit EXIT_FAILURE)
         else ([DevmemInit, Perror ''devmem_init'' (- rc)], Exit EXIT_FAILURE))
      else
        (let rc = ast_ahb_access_rc env in
         if rc \<noteq> 0
         then ([DevmemInit, AhbAccess (tl argv), Perror ''ast_ahb_access'' (- rc)],
               Exit EXIT_FAILURE)
         else
           (let cleanup = devmem_destroy_rc env in
            if cleanup \<noteq> 0
            then ([DevmemInit, AhbAccess (tl argv), Perror ''devmem_destroy'' (- cleanup)],
                  Exit EXIT_FAILURE)
            else ([DevmemInit, AhbAccess (tl argv)], Return 0))))"

definition devmem_parse :: "string list \<Rightarrow> unit parsed" where
  "devmem_parse argv = argp_keys (devmem_parse_opt argv) (map KEY_ARG (tl argv)) 0 ()"

definition cmd_devmem :: "devmem_env \<Rightarrow> string list \<Rightarrow> behaviour" where
  "cmd_devmem env argv =
     (case devmem_parse argv of
        Exited evs st \<Rightarrow> (evs, Exit st)
      | Failed e a \<Rightarrow> devmem_open env argv
      | Continue a \<Rightarrow> devmem_open env argv)"

section \<open>console: \<open>cmd_console\<close> (src/src/cmd/console.c)\<close>

record cmd_console_args =
  host_uart :: "string option"
  bmc_uart :: "string option"
  baud :: int
  user :: "string option"
  pass :: "string option"

definition console_parse_opt :: "libc \<Rightarrow> key \<Rightarrow> nat \<Rightarrow> cmd_console_args \<Rightarrow> cmd_console_args parsed" where
  "console_parse_opt lc k arg_num a =
     (case k of
        KEY_ARG arg \<Rightarrow>
          (if arg_num = 0 then
             (if arg \<noteq> ''uart3''
              then Exited [ArgpError ''Console only supports host on 'uart3' ''] argp_err_exit_status
              else Continue (a\<lparr>host_uart := Some arg\<rparr>))
           else if arg_num = 1 then
             (if arg \<noteq> ''uart2''
              then Exited [ArgpError ''Console only supports BMC on 'uart2' ''] argp_err_exit_status
              else Continue (a\<lparr>bmc_uart := Some arg\<rparr>))
           else if arg_num = 2 then Continue (a\<lparr>baud := atoi lc arg\<rparr>)
           else if arg_num = 3 then Continue (a\<lparr>user := Some arg\<rparr>)
           else if arg_num = 4 then Continue (a\<lparr>pass := Some arg\<rparr>)
           else Exited [ArgpUsage] argp_err_exit_status)
      | KEY_END \<Rightarrow>
          (if arg_num < 5 \<or> arg_num > 5 then Exited [ArgpUsage] argp_err_exit_status
           else Continue a)
      | KEY_OPT _ _ \<Rightarrow> Exited [ArgpError ''unknown option''] argp_err_exit_status)"

text \<open>From \<open>suart_set_baud(suart, 115200)\<close> to \<open>suart_run\<close> the command makes fifteen
  calls of one shape: \<open>rc = f(...); if (rc) goto suart_cleanup\<close> (the last one falls
  through to the same label). \<open>suart_step_rc env i\<close> is the result of the i-th of them;
  the code returned is the first that is not 0.\<close>

record console_env = host_env +
  clk_get_ok :: bool
  uart_mux_get_ok :: bool
  clk_enable_rc :: int
  uart_mux_route_rc :: int
  suart_init_rc :: int
  suart_step_rc :: "nat \<Rightarrow> int"

fun first_failure :: "int list \<Rightarrow> int" where
  "first_failure [] = 0"
| "first_failure (rc # rcs) = (if rc \<noteq> 0 then rc else first_failure rcs)"

definition console_session :: "console_env \<Rightarrow> int \<Rightarrow> behaviour" where
  "console_session env argc =
     (let t1 = [HostInit (argc - 4)] in
      if host_init_rc env < 0 then (t1, Exit EXIT_FAILURE) else
      let t2 = t1 @ [HostGetAhb] in
      if \<not> host_get_ahb_ok env then (t2 @ [Call ''host_destroy''], Return EXIT_FAILURE) else
      let rc = soc_probe_rc env; t3 = t2 @ [SocProbe] in
      if rc < 0 then (t3 @ [Perror ''soc_probe'' (- rc), Call ''host_destroy''], Return rc) else
      let t4 = t3 @ [Call ''clk_get''];
          soc_cleanup = [Call ''soc_destroy'', Call ''host_destroy''] in
      if \<not> clk_get_ok env then (t4 @ soc_cleanup, Return rc) else
      let t5 = t4 @ [Call ''uart_mux_get''] in
      if \<not> uart_mux_get_ok env then (t5 @ soc_cleanup, Return rc) else
      let rc = clk_enable_rc env; t6 = t5 @ [Call ''clk_enable''] in
      if rc < 0 then (t6 @ Perror ''clk_enable'' (- rc) # soc_cleanup, Return rc) else
      let rc = uart_mux_route_rc env; t7 = t6 @ [Call ''uart_mux_route''] in
      if rc < 0 then (t7 @ Perror ''uart_mux_route'' (- rc) # soc_cleanup, Return rc) else
      let rc = suart_init_rc env; t8 = t7 @ [Call ''suart_init_defaults''];
          mux_restore = Call ''uart_mux_restore'' # soc_cleanup in
      if rc \<noteq> 0 then (t8 @ Perror ''suart_init'' (- rc) # mux_restore, Return rc) else
      (t8 @ Call ''suart session'' # Call ''suart_destroy'' # mux_restore,
       Return (first_failure (map (suart_step_rc env) [0..<15]))))"

definition cmd_console :: "libc \<Rightarrow> console_env \<Rightarrow> string list \<Rightarrow> behaviour" where
  "cmd_console lc env argv =
     (case argp_keys (console_parse_opt lc) (map KEY_ARG (tl argv)) 0
             \<lparr>host_uart = None, bmc_uart = None, baud = 0, user = None, pass = None\<rparr> of
        Exited evs st \<Rightarrow> (evs, Exit st)
      | Failed e a \<Rightarrow> console_session env (int (length argv))
      | Continue a \<Rightarrow> console_session env (int (length argv)))"

section \<open>sfc: \<open>cmd_sfc\<close> (src/unnamed/part_003)\<close>

definition SFC_FLASH_WIN :: uint32_t where
  "SFC_FLASH_WIN = push_bit 10 64"

definition flash_op_read :: int where "flash_op_read = 0"
definition flash_op_write :: int where "flash_op_write = 1"
definition flash_op_erase :: int where "flash_op_erase = 2"

text \<open>struct cmd_sfc_args; its member \<open>mode\<close> is never written or read.\<close>

record cmd_sfc_args = key_args +
  address :: uint32_t
  length_a :: uint32_t
  type_a :: "string option"
  op :: int

definition sfc_parse_opt :: "libc \<Rightarrow> key \<Rightarrow> nat \<Rightarrow> cmd_sfc_args \<Rightarrow> cmd_sfc_args parsed" where
  "sfc_parse_opt lc k arg_num a0 =
     (let a = (case k of KEY_ARG _ \<Rightarrow> a0\<lparr>key_arg_count := key_arg_count a0 + 1\<rparr> | _ \<Rightarrow> a0) in
      case k of
        KEY_OPT c arg \<Rightarrow>
          (if c = CHR ''t'' then
             (if arg \<noteq> ''fmc'' then Exited [ArgpError ''Invalid SFC type''] argp_err_exit_status
              else Continue (a\<lparr>type_a := Some arg\<rparr>))
           else if c = CHR ''m'' then
             (if arg = ''read'' then Continue (a\<lparr>op := flash_op_read\<rparr>)
              else if arg = ''write'' then Continue (a\<lparr>op := flash_op_write\<rparr>)
              else if arg = ''erase'' then Continue (a\<lparr>op := flash_op_erase\<rparr>)
              else Exited [ArgpError ''Invalid operation''] argp_err_exit_status)
           else if c = CHR ''a'' then Continue (a\<lparr>address := ucast (ul_value (strtoul lc arg))\<rparr>)
           else if c = CHR ''l'' then Continue (a\<lparr>length_a := ucast (ul_value (strtoul lc arg))\<rparr>)
           else Exited [ArgpError ''unknown option''] argp_err_exit_status)
      | KEY_ARG _ \<Rightarrow> Continue a
      | KEY_END \<Rightarrow>
          (if type_a a = None then Exited [ArgpError ''Missing SFC type''] argp_err_exit_status
           else if op a = 99 then Exited [ArgpError ''Missing operation''] argp_err_exit_status
           else if address a = 0 \<and> length_a a = 0
           then Exited [ArgpError ''Missing address and length''] argp_err_exit_status
           else if length_a a = 0 then Exited [ArgpError ''Missing length''] argp_err_exit_status
           else Continue a))"

text \<open>
  Standard input, as the write loop sees it: the results of the successive calls of
  \<open>read(0, buf, count)\<close>, each the value returned and the \<open>errno\<close> left; when the list
  is used up the next \<open>read\<close> returns 0, the end of the file. \<open>flash_write_rc env a n\<close>
  is the result of \<open>flash_write(chip, a, buf, n, true)\<close>.
\<close>

record sfc_env = host_env +
  sfc_get_ok :: bool
  flash_init_rc :: int
  malloc_ok :: bool
  flash_read_rc :: int
  write_stdout :: "int \<times> int"
  stdin_reads :: "(int \<times> int) list"
  flash_write_rc :: "uint32_t \<Rightarrow> int \<Rightarrow> int"
  flash_erase_rc :: int

text \<open>The loop \<open>while ((ingress = read(0, buf, arguments.length)))\<close>: the events, the
  value of \<open>rc\<close> and of \<open>arguments.address\<close> when it is left.\<close>

fun sfc_write_loop ::
  "(uint32_t \<Rightarrow> int \<Rightarrow> int) \<Rightarrow> (int \<times> int) list \<Rightarrow> uint32_t \<Rightarrow> uint32_t \<Rightarrow> int
     \<Rightarrow> event list \<times> int \<times> uint32_t" where
  "sfc_write_loop fw [] addr len rc = ([ReadStdin (unat len)], rc, addr)"
| "sfc_write_loop fw ((ingress, err) # rs) addr len rc =
     (if ingress = 0 then ([ReadStdin (unat len)], rc, addr)
      else if ingress < 0 then ([ReadStdin (unat len)], - err, addr)
      else
        (let rc' = fw addr ingress in
         if rc' < 0 then ([ReadStdin (unat len), FlashWrite addr ingress], rc', addr)
         else
           (case sfc_write_loop fw rs (addr + word_of_int ingress) len rc' of
              (evs, r, a') \<Rightarrow> (ReadStdin (unat len) # FlashWrite addr ingress # evs, r, a'))))"


definition sfc_operation :: "sfc_env \<Rightarrow> cmd_sfc_args \<Rightarrow> int \<Rightarrow> event list \<times> int" where
  "sfc_operation env a rc =
     (if op a = flash_op_read then
        (if \<not> malloc_ok env then ([], rc)
         else
           (let rc = flash_read_rc env;
                evs = [FlashRead (address a) (length_a a), Call ''write''] in
            if fst (write_stdout env) = - 1
            then (evs @ [Perror ''write'' (snd (write_stdout env))], - snd (write_stdout env))
            else (evs, rc)))
      else if op a = flash_op_write then
        (let a = a\<lparr>length_a := SFC_FLASH_WIN\<rparr> in
         if \<not> malloc_ok env then ([], rc)
         else
           (case sfc_write_loop (flash_write_rc env) (stdin_reads env) (address a) (length_a a) rc of
              (evs, r, a') \<Rightarrow> (evs, r)))
      else if op a = flash_op_erase then
        ([FlashErase (address a) (length_a a)], flash_erase_rc env)
      else ([], rc))"

definition sfc_session :: "sfc_env \<Rightarrow> cmd_sfc_args \<Rightarrow> behaviour" where
  "sfc_session env a =
     (let t1 = [HostInit (key_arg_count a)] in
      if host_init_rc env < 0 then (t1, Exit EXIT_FAILURE) else
      let t2 = t1 @ [HostGetAhb] in
      if \<not> host_get_ahb_ok env then (t2 @ [Call ''host_destroy''], Return EXIT_FAILURE) else
      let rc = soc_probe_rc env; t3 = t2 @ [SocProbe] in
      if rc < 0 then (t3 @ [Call ''host_destroy''], Return rc) else
      let t4 = t3 @ [Call ''sfc_get_by_name''];
          cleanup_soc = [Call ''soc_destroy'', Call ''host_destroy''] in
      if \<not> sfc_get_ok env then (t4 @ cleanup_soc, Return rc) else
      let rc = flash_init_rc env; t5 = t4 @ [FlashInit] in
      if rc < 0 then (t5 @ cleanup_soc, Return rc) else
      (case sfc_operation env a rc of
         (evs, rc) \<Rightarrow> (t5 @ evs @ Call ''flash_destroy'' # cleanup_soc, Return rc)))"

definition sfc_args0 :: cmd_sfc_args where
  "sfc_args0 = \<lparr>key_arg_count = 0, address = 0, length_a = 0, type_a = None, op = 99\<rparr>"

definition cmd_sfc :: "libc \<Rightarrow> sfc_env \<Rightarrow> key list \<Rightarrow> behaviour" where
  "cmd_sfc lc env keys =
     (case argp_keys (sfc_parse_opt lc) keys 0 sfc_args0 of
        Exited evs st \<Rightarrow> (evs, Exit st)
      | Failed e a \<Rightarrow> sfc_session env a
      | Continue a \<Rightarrow> sfc_session env a)"

section \<open>read ram: \<open>parse_opt_ram\<close> and \<open>cmd_read_ram\<close> (src/unnamed/part_002)\<close>

text \<open>The memory controller of the probed chip: \<open>sdmc_get_dram\<close> and \<open>sdmc_get_vram\<close>
  give a code and the region they found. \<open>soc_generation\<close> is the generation that
  \<open>soc_probe\<close> identified.\<close>

datatype ast_generation = ast_g4 | ast_g5 | ast_g6

record soc_env = host_env +
  soc_generation :: ast_generation
  sdmc_get_ok :: bool
  sdmc_get_dram :: "int \<times> soc_region"
  sdmc_get_vram :: "int \<times> soc_region"

record ram_env = soc_env +
  soc_siphon_out_rc :: "ulong \<Rightarrow> ulong \<Rightarrow> int"

text \<open>struct cmd_read_ram_args: \<open>start\<close> and \<open>length\<close> are \<open>unsigned long\<close>.\<close>

record cmd_read_ram_args = key_args +
  start_arg :: ulong
  length_arg :: ulong

definition ram_args0 :: cmd_read_ram_args where
  "ram_args0 = \<lparr>key_arg_count = 0, start_arg = 0, length_arg = 0\<rparr>"

definition parse_opt_ram :: "libc \<Rightarrow> key \<Rightarrow> nat \<Rightarrow> cmd_read_ram_args \<Rightarrow> cmd_read_ram_args parsed" where
  "parse_opt_ram lc k arg_num a0 =
     (let a = (case k of KEY_ARG _ \<Rightarrow> a0\<lparr>key_arg_count := key_arg_count a0 + 1\<rparr> | _ \<Rightarrow> a0);
          wraps = (\<lambda>a. if UINT32_MAX - length_arg a < start_arg a
                        then Exited [ArgpError ''RAM region start address + length exceeds address space'']
                               argp_err_exit_status
                        else Continue a) in
      case k of
        KEY_OPT c arg \<Rightarrow>
          (if c = CHR ''S'' then
             (let r = strtoul lc arg; a = a\<lparr>start_arg := ul_value r\<rparr> in
              if start_arg a = ULONG_MAX \<and> ul_errno r \<noteq> 0 then Failed ARGP_KEY_ERROR a
              else if start_arg a > UINT32_MAX then Failed ARGP_KEY_ERROR a
              else Continue a)
           else if c = CHR ''L'' then
             (let r = strtoul lc arg; a = a\<lparr>length_arg := ul_value r\<rparr> in
              if length_arg a = ULONG_MAX \<and> ul_errno r \<noteq> 0 then Failed ARGP_KEY_ERROR a
              else if length_arg a > UINT32_MAX then Failed ARGP_KEY_ERROR a
              else Continue a)
           else Exited [ArgpError ''unknown option''] argp_err_exit_status)
      | KEY_ARG _ \<Rightarrow> wraps a
      | KEY_END \<Rightarrow> wraps a)"

definition ram_siphon :: "ram_env \<Rightarrow> event list \<Rightarrow> cmd_read_ram_args \<Rightarrow> behaviour" where
  "ram_siphon env t a =
     (let rc = soc_siphon_out_rc env (start_arg a) (length_arg a);
          t = t @ [SiphonOut (start_arg a) (length_arg a)];
          cleanup_soc = [Call ''soc_destroy'', Call ''host_destroy''] in
      if rc \<noteq> 0 then (t @ Perror ''soc_siphon_in'' (- rc) # cleanup_soc, Return rc)
      else (t @ cleanup_soc, Return rc))"

definition read_ram_session :: "ram_env \<Rightarrow> cmd_read_ram_args \<Rightarrow> behaviour" where
  "read_ram_session env a =
     (let rc = host_init_rc env; t1 = [HostInit (key_arg_count a)] in
      if rc < 0 then (t1, Return rc) else
      let t2 = t1 @ [HostGetAhb] in
      if \<not> host_get_ahb_ok env then (t2 @ [Call ''host_destroy''], Return (- ENODEV)) else
      let rc = soc_probe_rc env; t3 = t2 @ [SocProbe] in
      if rc < 0 then (t3 @ [Call ''host_destroy''], Return rc) else
      let t4 = t3 @ [Call ''sdmc_get''];
          cleanup_soc = [Call ''soc_destroy'', Call ''host_destroy''] in
      if \<not> sdmc_get_ok env then (t4 @ cleanup_soc, Return (- ENODEV)) else
      let rc = fst (sdmc_get_dram env); dram = snd (sdmc_get_dram env); t5 = t4 @ [SdmcGetDram] in
      if rc \<noteq> 0 then (t5 @ cleanup_soc, Return rc) else
      if start_arg a \<noteq> 0 \<and> length_arg a \<noteq> 0 then
        (if start_arg a < ucast (start dram)
            \<or> start_arg a + length_arg a > ucast (start dram + length_r dram)
         then (t5 @ cleanup_soc, Return (- EINVAL))
         else ram_siphon env t5 a)
      else
        (let rc = fst (sdmc_get_vram env); vram = snd (sdmc_get_vram env); t6 = t5 @ [SdmcGetVram] in
         if rc \<noteq> 0 then (t6 @ cleanup_soc, Return rc)
         else ram_siphon env t6
                (a\<lparr>start_arg := ucast (start dram),
                   length_arg := ucast (length_r dram - length_r vram)\<rparr>)))"

text \<open>\<open>parse_subcommand\<close> drops the code that \<open>argp_parse\<close> returns: after an error
  code of the parser function the command goes on with the arguments as they are.\<close>

definition ram_parse :: "libc \<Rightarrow> key list \<Rightarrow> cmd_read_ram_args parsed" where
  "ram_parse lc keys = argp_keys (parse_opt_ram lc) keys 0 ram_args0"

definition cmd_read_ram :: "libc \<Rightarrow> ram_env \<Rightarrow> key list \<Rightarrow> behaviour" where
  "cmd_read_ram lc env keys =
     (case ram_parse lc keys of
        Exited evs st \<Rightarrow> (evs, Exit st)
      | Failed e a \<Rightarrow> read_ram_session env a
      | Continue a \<Rightarrow> read_ram_session env a)"

section \<open>The via clause: \<open>parse_via\<close> (src/unnamed/part_002), and coprocessor (src/src/cmd/coprocessor.c)\<close>

text \<open>\<open>parse_via\<close>: \<open>argi\<close> is the index of the word \<open>via\<close> in \<open>state->argv\<close>, and
  \<open>state->argc\<close> is the length of that vector. The result is the code returned and the
  connection arguments as they are left.\<close>

definition parse_via :: "libc \<Rightarrow> nat \<Rightarrow> string list \<Rightarrow> connection_args \<Rightarrow> int \<times> connection_args" where
  "parse_via lc argi argv args =
     (if int argi \<ge> int (length argv) then (- EINVAL, args) else
      let argc = int (length argv) - int argi - 1 in
      if argc \<noteq> 1 \<and> argc \<noteq> 5 then (- EINVAL, args) else
      let args = args\<lparr>interface := Some (argv ! (argi + 1))\<rparr> in
      if argc = 1 then (0, args) else
      (0, args\<lparr>ip := Some (argv ! (argi + 2)),
               port := atoi lc (argv ! (argi + 3)),
               username := Some (argv ! (argi + 4)),
               password := Some (argv ! (argi + 5))\<rparr>))"

definition COPROC_CACHED_MEM_SIZE :: ulong where
  "COPROC_CACHED_MEM_SIZE = 16 * 1024 * 1024"

definition COPROC_TOTAL_MEM_SIZE :: ulong where
  "COPROC_TOTAL_MEM_SIZE = 32 * 1024 * 1024"

definition SCU_COPROC_CTRL :: uint32_t where "SCU_COPROC_CTRL = 0xa00"
definition SCU_COPROC_CTRL_RESET_ASSERT :: uint32_t where "SCU_COPROC_CTRL_RESET_ASSERT = push_bit 1 1"
definition SCU_COPROC_CTRL_EN :: uint32_t where "SCU_COPROC_CTRL_EN = push_bit 0 1"
definition SCU_COPROC_MEM_BASE :: uint32_t where "SCU_COPROC_MEM_BASE = 0xa04"
definition SCU_COPROC_IMEM_LIMIT :: uint32_t where "SCU_COPROC_IMEM_LIMIT = 0xa08"
definition SCU_COPROC_DMEM_LIMIT :: uint32_t where "SCU_COPROC_DMEM_LIMIT = 0xa0c"
definition SCU_COPROC_CACHE_RANGE :: uint32_t where "SCU_COPROC_CACHE_RANGE = 0xa40"
definition SCU_COPROC_CACHE_1ST_16MB_EN :: uint32_t where "SCU_COPROC_CACHE_1ST_16MB_EN = push_bit 0 1"
definition SCU_COPROC_CACHE_FUNC :: uint32_t where "SCU_COPROC_CACHE_FUNC = 0xa48"
definition SCU_COPROC_CACHE_EN :: uint32_t where "SCU_COPROC_CACHE_EN = push_bit 0 1"

record cmd_copressor_run_args =
  mem_base :: ulong
  mem_size :: ulong
  connection :: connection_args

definition run_args0 :: cmd_copressor_run_args where
  "run_args0 = \<lparr>mem_base = 0, mem_size = 0, connection = no_connection\<rparr>"

text \<open>
  \<open>parse_opt_run\<close>. The run command has no options of its own, so the positional
  argument with number \<open>arg_num\<close> is \<open>state->argv[arg_num + 1]\<close> and \<open>state->next\<close> is
  \<open>arg_num + 2\<close> while it is parsed: \<open>parse_via\<close> gets \<open>state->next - 1 = arg_num + 1\<close>.
\<close>

definition parse_opt_run ::
  "libc \<Rightarrow> string list \<Rightarrow> key \<Rightarrow> nat \<Rightarrow> cmd_copressor_run_args \<Rightarrow> cmd_copressor_run_args parsed" where
  "parse_opt_run lc argv k arg_num a =
     (case k of
        KEY_ARG arg \<Rightarrow>
          (if arg = ''via'' then
             (case parse_via lc (arg_num + 1) argv (connection a) of
                (rc, c) \<Rightarrow>
                  if rc \<noteq> 0
                  then Exited [ArgpError ''Failed to parse connection arguments''] argp_err_exit_status
                  else Continue (a\<lparr>connection := c\<rparr>))
           else if arg_num = 0 then
             (let r = strtoul lc arg; a = a\<lparr>mem_base := ul_value r\<rparr> in
              if mem_base a = ULONG_MAX \<and> ul_errno r \<noteq> 0
              then Exited [ArgpError ''Failed to parse coprocessor RAM base''] argp_err_exit_status
              else if ul_consumed r = 0 \<or> ul_consumed r < length arg
              then Exited [ArgpError ''Failed to parse coprocessor RAM base''] argp_err_exit_status
              else Continue a)
           else if arg_num = 1 then
             (let r = strtoul lc arg; a = a\<lparr>mem_size := ul_value r\<rparr> in
              if mem_size a = ULONG_MAX \<and> ul_errno r \<noteq> 0
              then Exited [ArgpError ''Failed to parse coprocessor RAM size''] argp_err_exit_status
              else if ul_consumed r = 0 \<or> ul_consumed r < length arg
              then Exited [ArgpError ''Failed to parse coprocessor RAM size''] argp_err_exit_status
              else if mem_size a \<noteq> COPROC_TOTAL_MEM_SIZE
              then Exited [ArgpError ''We currently only support assigning 32M of memory to the coprocessor'']
                     argp_err_exit_status
              else Continue a)
           else Continue a)
      | KEY_END \<Rightarrow>
          (if arg_num < 2 then Exited [ArgpUsage] argp_err_exit_status else Continue a)
      | KEY_OPT _ _ \<Rightarrow> Exited [ArgpError ''unknown option''] argp_err_exit_status)"

text \<open>
  The environment of the coprocessor commands. \<open>scu_writel_rc env i reg v\<close> is the code
  of the i-th call of \<open>scu_writel\<close> the command makes, \<open>usleep_rc env i\<close> that of the
  i-th \<open>usleep\<close>.
\<close>

record coproc_env = soc_env +
  host_init_new_rc :: int
  scu_get_ok :: bool
  scu_writel_rc :: "nat \<Rightarrow> uint32_t \<Rightarrow> uint32_t \<Rightarrow> int"
  soc_siphon_in_rc :: "ulong \<Rightarrow> ulong \<Rightarrow> int"
  usleep_rc :: "nat \<Rightarrow> int"

text \<open>A sequence of calls, each followed by \<open>rc = EXIT_FAILURE; goto cleanup_scu\<close> when
  its test fails: the calls made, and whether one failed.\<close>

fun run_steps :: "(event \<times> bool) list \<Rightarrow> event list \<times> bool" where
  "run_steps [] = ([], False)"
| "run_steps ((e, failed) # ss) =
     (if failed then ([e], True)
      else (case run_steps ss of (evs, f) \<Rightarrow> (e # evs, f)))"

definition coprocessor_program :: "coproc_env \<Rightarrow> cmd_copressor_run_args \<Rightarrow> (event \<times> bool) list" where
  "coprocessor_program env a =
     [(ScuWritel SCU_COPROC_CTRL 0, scu_writel_rc env 0 SCU_COPROC_CTRL 0 < 0),
      (ScuWritel SCU_COPROC_CTRL SCU_COPROC_CTRL_RESET_ASSERT,
         scu_writel_rc env 1 SCU_COPROC_CTRL SCU_COPROC_CTRL_RESET_ASSERT < 0),
      (SiphonIn (mem_base a) (mem_size a), soc_siphon_in_rc env (mem_base a) (mem_size a) < 0),
      (ScuWritel SCU_COPROC_MEM_BASE (ucast (mem_base a)),
         scu_writel_rc env 2 SCU_COPROC_MEM_BASE (ucast (mem_base a)) \<noteq> 0),
      (ScuWritel SCU_COPROC_IMEM_LIMIT (ucast (mem_base a + COPROC_CACHED_MEM_SIZE)),
         scu_writel_rc env 3 SCU_COPROC_IMEM_LIMIT (ucast (mem_base a + COPROC_CACHED_MEM_SIZE)) \<noteq> 0),
      (ScuWritel SCU_COPROC_DMEM_LIMIT (ucast (mem_base a + mem_size a)),
         scu_writel_rc env 4 SCU_COPROC_DMEM_LIMIT (ucast (mem_base a + mem_size a)) \<noteq> 0),
      (ScuWritel SCU_COPROC_CACHE_RANGE SCU_COPROC_CACHE_1ST_16MB_EN,
         scu_writel_rc env 5 SCU_COPROC_CACHE_RANGE SCU_COPROC_CACHE_1ST_16MB_EN \<noteq> 0),
      (ScuWritel SCU_COPROC_CACHE_FUNC SCU_COPROC_CACHE_EN,
         scu_writel_rc env 6 SCU_COPROC_CACHE_FUNC SCU_COPROC_CACHE_EN \<noteq> 0),
      (Call ''usleep'', usleep_rc env 0 = - 1),
      (ScuWritel SCU_COPROC_CTRL 0, scu_writel_rc env 7 SCU_COPROC_CTRL 0 < 0),
      (Call ''usleep'', usleep_rc env 1 = - 1),
      (ScuWritel SCU_COPROC_CTRL SCU_COPROC_CTRL_EN,
         scu_writel_rc env 8 SCU_COPROC_CTRL SCU_COPROC_CTRL_EN < 0)]"

definition coprocessor_run_session :: "coproc_env \<Rightarrow> cmd_copressor_run_args \<Rightarrow> behaviour" where
  "coprocessor_run_session env a =
     (let t1 = [HostInitNew (connection a)] in
      if host_init_new_rc env < 0 then (t1, Return EXIT_FAILURE) else
      let t2 = t1 @ [HostGetAhb] in
      if \<not> host_get_ahb_ok env then (t2 @ [Call ''host_destroy''], Return EXIT_FAILURE) else
      let t3 = t2 @ [SocProbe] in
      if soc_probe_rc env < 0 then (t3 @ [Call ''host_destroy''], Return EXIT_FAILURE) else
      let cleanup_soc = [Call ''soc_destroy'', Call ''host_destroy''] in
      if soc_generation env \<noteq> ast_g6 then (t3 @ cleanup_soc, Return EXIT_FAILURE) else
      let t4 = t3 @ [Call ''sdmc_get''] in
      if \<not> sdmc_get_ok env then (t4 @ cleanup_soc, Return EXIT_FAILURE) else
      let dram = snd (sdmc_get_dram env); t5 = t4 @ [SdmcGetDram] in
      if fst (sdmc_get_dram env) \<noteq> 0 then (t5 @ cleanup_soc, Return EXIT_FAILURE) else
      if mem_base a > UINT32_MAX then (t5 @ cleanup_soc, Return EXIT_FAILURE) else
      if ((mem_base a + mem_size a) AND UINT32_MAX) < mem_base a
      then (t5 @ cleanup_soc, Return EXIT_FAILURE) else
      if mem_base a < ucast (start dram)
         \<or> mem_base a + mem_size a > ucast (start dram + length_r dram)
      then (t5 @ cleanup_soc, Return EXIT_FAILURE) else
      let t6 = t5 @ [Call ''scu_get''] in
      if \<not> scu_get_ok env then (t6 @ cleanup_soc, Return EXIT_FAILURE) else
      (case run_steps (coprocessor_program env a) of
         (evs, failed) \<Rightarrow>
           (t6 @ evs @ Call ''scu_put'' # cleanup_soc,
            Return (if failed then EXIT_FAILURE else EXIT_SUCCESS))))"

definition run_parse :: "libc \<Rightarrow> string list \<Rightarrow> cmd_copressor_run_args parsed" where
  "run_parse lc argv = argp_keys (parse_opt_run lc argv) (map KEY_ARG (tl argv)) 0 run_args0"

definition cmd_coprocessor_run :: "libc \<Rightarrow> coproc_env \<Rightarrow> string list \<Rightarrow> behaviour" where
  "cmd_coprocessor_run lc env argv =
     (case run_parse lc argv of
        Exited evs st \<Rightarrow> (evs, Exit st)
      | Failed e a \<Rightarrow> coprocessor_run_session env a
      | Continue a \<Rightarrow> coprocessor_run_session env a)"

definition coprocessor_stop_session :: "coproc_env \<Rightarrow> int \<Rightarrow> behaviour" where
  "coprocessor_stop_session env argc =
     (let t1 = [HostInit argc] in
      if host_init_rc env < 0 then (t1, Return EXIT_FAILURE) else
      let t2 = t1 @ [HostGetAhb] in
      if \<not> host_get_ahb_ok env then (t2 @ [Call ''host_destroy''], Return EXIT_FAILURE) else
      let t3 = t2 @ [SocProbe] in
      if soc_probe_rc env < 0 then (t3 @ [Call ''host_destroy''], Return EXIT_FAILURE) else
      let cleanup_soc = [Call ''soc_destroy'', Call ''host_destroy''] in
      if soc_generation env \<noteq> ast_g6 then (t3 @ cleanup_soc, Return EXIT_FAILURE) else
      let t4 = t3 @ [Call ''scu_get''] in
      if \<not> scu_get_ok env then (t4 @ cleanup_soc, Return EXIT_FAILURE) else
      let rc = scu_writel_rc env 0 SCU_COPROC_CTRL 0;
          t5 = t4 @ [ScuWritel SCU_COPROC_CTRL 0, Call ''scu_put''] in
      (t5 @ cleanup_soc, Return (if rc < 0 then EXIT_FAILURE else rc)))"

text \<open>\<open>argp_stop\<close> has no parser function: \<open>argp_parse\<close> takes no positional argument
  for it and ends the process with a usage error when there is one.\<close>

definition cmd_coprocessor_stop :: "coproc_env \<Rightarrow> string list \<Rightarrow> behaviour" where
  "cmd_coprocessor_stop env argv =
     (if tl argv \<noteq> [] then ([ArgpError ''Too many arguments''], Exit argp_err_exit_status)
      else coprocessor_stop_session env (int (length argv)))"

section \<open>probe: \<open>cmd_probe\<close> (src/src/cmd/probe.c)\<close>

text \<open>enum bridge_mode, in the order of the spec's security levels.\<close>

definition bm_permissive :: int where "bm_permissive = 0"
definition bm_restricted :: int where "bm_restricted = 1"
definition bm_disabled :: int where "bm_disabled = 2"

text \<open>struct cmd_probe_args. Its members \<open>interface\<close>, \<open>ip\<close>, \<open>port\<close>, \<open>username\<close> and
  \<open>password\<close> are held here as one \<open>connection_args\<close> value, \<open>conn\<close>.\<close>

record cmd_probe_args = key_args +
  conn :: connection_args
  iface :: "string option"
  requirement :: int
  list_ifaces :: int

definition probe_args0 :: cmd_probe_args where
  "probe_args0 = \<lparr>key_arg_count = 0, conn = no_connection, iface = None,
                   requirement = 0, list_ifaces = 0\<rparr>"

definition probe_parse_opt :: "libc \<Rightarrow> key \<Rightarrow> nat \<Rightarrow> cmd_probe_args \<Rightarrow> cmd_probe_args parsed" where
  "probe_parse_opt lc k arg_num a0 =
     (let a = (case k of KEY_ARG _ \<Rightarrow> a0\<lparr>key_arg_count := key_arg_count a0 + 1\<rparr> | _ \<Rightarrow> a0) in
      case k of
        KEY_OPT c arg \<Rightarrow>
          (if c = CHR ''l'' then Continue (a\<lparr>list_ifaces := 1\<rparr>)
           else if c = CHR ''i'' then Continue (a\<lparr>iface := Some arg\<rparr>)
           else if c = CHR ''r'' then
             (if arg \<noteq> ''integrity'' \<and> arg \<noteq> ''confidentiality''
              then Exited [ArgpError ''Invalid requirement''] argp_err_exit_status
              else if arg = ''integrity'' then Continue (a\<lparr>requirement := bm_restricted\<rparr>)
              else Continue (a\<lparr>requirement := bm_disabled\<rparr>))
           else Exited [ArgpError ''unknown option''] argp_err_exit_status)
      | KEY_ARG arg \<Rightarrow>
          (if arg_num = 0 then Continue (a\<lparr>conn := (conn a)\<lparr>interface := Some arg\<rparr>\<rparr>)
           else if arg_num = 1 then Continue (a\<lparr>conn := (conn a)\<lparr>ip := Some arg\<rparr>\<rparr>)
           else if arg_num = 2 then Continue (a\<lparr>conn := (conn a)\<lparr>port := atoi lc arg\<rparr>\<rparr>)
           else if arg_num = 3 then Continue (a\<lparr>conn := (conn a)\<lparr>username := Some arg\<rparr>\<rparr>)
           else if arg_num = 4 then Continue (a\<lparr>conn := (conn a)\<lparr>password := Some arg\<rparr>\<rparr>)
           else Continue a)
      | KEY_END \<Rightarrow>
          (let a = (if requirement a = 0 then a\<lparr>requirement := bm_permissive\<rparr> else a) in
           if key_arg_count a > 1 \<and> key_arg_count a \<noteq> 5
           then Exited [ArgpError ''Wrong number of arguments. Either 1 or 5''] argp_err_exit_status
           else Continue a))"

record probe_env = host_env +
  soc_probe_bridge_controllers :: "int \<times> int"

definition probe_session :: "probe_env \<Rightarrow> cmd_probe_args \<Rightarrow> event list \<times> int" where
  "probe_session env a =
     (let t1 = [HostInit (key_arg_count a)] in
      if host_init_rc env < 0 then (t1, EXIT_FAILURE) else
      let t2 = t1 @ [HostGetAhb] in
      if \<not> host_get_ahb_ok env then (t2 @ [Call ''host_destroy''], EXIT_FAILURE) else
      let rc = soc_probe_rc env; t3 = t2 @ [SocProbe] in
      if rc < 0 then (t3 @ [Call ''host_destroy''], rc) else
      let cleanup_soc = [Call ''soc_destroy'', Call ''host_destroy''] in
      if list_ifaces a \<noteq> 0
      then (t3 @ Call ''soc_list_bridge_controllers'' # cleanup_soc, EXIT_SUCCESS)
      else
        (let rc = fst (soc_probe_bridge_controllers env);
             discovered = snd (soc_probe_bridge_controllers env);
             t4 = t3 @ [Call ''soc_probe_bridge_controllers''] in
         if rc < 0 then (t4 @ cleanup_soc, EXIT_FAILURE)
         else (t4 @ cleanup_soc,
               if requirement a \<le> discovered then EXIT_SUCCESS else EXIT_FAILURE)))"

text \<open>\<open>cmd_probe\<close> never returns: it ends in \<open>exit(rc)\<close>.\<close>

definition probe_parse :: "libc \<Rightarrow> key list \<Rightarrow> cmd_probe_args parsed" where
  "probe_parse lc keys = argp_keys (probe_parse_opt lc) keys 0 probe_args0"

definition cmd_probe :: "libc \<Rightarrow> probe_env \<Rightarrow> key list \<Rightarrow> behaviour" where
  "cmd_probe lc env keys =
     (case probe_parse lc keys of
        Exited evs st \<Rightarrow> (evs, Exit st)
      | Failed e a \<Rightarrow> (case probe_session env a of (evs, rc) \<Rightarrow> (evs, Exit rc))
      | Continue a \<Rightarrow> (case probe_session env a of (evs, rc) \<Rightarrow> (evs, Exit rc)))"

section \<open>The bridge driver registry and the options of the program (src/unnamed/part_000)\<close>

text \<open>
  Modelled from the spec: \<open>disable_bridge_driver\<close> and the registry it works on
  (declared in host.h) are not among the sources. The spec (3, 4.1): a driver descriptor is
  \<open>{name, priority, enabled}\<close>, the registry an ordered sequence of them keyed by name,
  and \<open>disable(name)\<close> fails with UnknownDriver if the name is not present; otherwise it
  clears the driver's enabled flag.
\<close>

record bridge_driver =
  name :: string
  priority :: int
  enabled :: bool

datatype registry_error = UnknownDriver

definition disable_bridge_driver :: "string \<Rightarrow> bridge_driver list \<Rightarrow> registry_error + bridge_driver list" where
  "disable_bridge_driver n reg =
     (if n \<in> set (map name reg)
      then Inr (map (\<lambda>d. if name d = n then d\<lparr>enabled := False\<rparr> else d) reg)
      else Inl UnknownDriver)"

datatype log_level = level_none | level_info | level_trace

record main_state =
  registry :: "bridge_driver list"
  log :: log_level

definition cmds :: "string list" where
  "cmds = [''ilpc'', ''p2a'', ''console'', ''read'', ''write'', ''replace'', ''probe'', ''debug'',
           ''reset'', ''jtag'', ''devmem'', ''sfc'', ''otp'', ''trace'', ''coprocessor'']"

text \<open>The message of \<open>parse_opt\<close> for a name that \<open>disable_bridge_driver\<close> refuses.\<close>

definition not_recognized :: "string \<Rightarrow> string" where
  "not_recognized arg =
     ''Error: '' @ [CHR 0x27] @ arg @ [CHR 0x27] @ '' not a recognized bridge name (use '-l' to list)''"

text \<open>\<open>parse_opt\<close> of the main program, for an option key.\<close>

definition main_parse_opt :: "char \<Rightarrow> string \<Rightarrow> main_state \<Rightarrow> main_state parsed" where
  "main_parse_opt c arg s =
     (if c = CHR ''q'' then Continue (s\<lparr>log := level_none\<rparr>)
      else if c = CHR ''v'' then Continue (s\<lparr>log := level_trace\<rparr>)
      else if c = CHR ''s'' then
        (case disable_bridge_driver arg (registry s) of
           Inl e \<Rightarrow> Exited [Stderr (not_recognized arg)] EXIT_FAILURE
         | Inr reg \<Rightarrow> Continue (s\<lparr>registry := reg\<rparr>))
      else if c = CHR ''l'' then Exited [Call ''print_bridge_drivers''] EXIT_SUCCESS
      else Exited [ArgpError ''unknown option''] argp_err_exit_status)"

text \<open>
  The run of the program: \<open>opts\<close> are the options that stand before the first
  positional argument, \<open>args\<close> the rest of the command line. Under ARGP_IN_ORDER the
  options are parsed first, in order; the first positional argument then reaches
  \<open>parse_opt\<close> as ARGP_KEY_ARGS, which calls the command of that name and ends the
  process with its code. \<open>fn\<close> stands for the functions of the table \<open>cmds\<close>: given
  the command's name, its arguments and the registry it finds, the behaviour of the
  command. Negotiation of a bridge happens inside the commands only.
\<close>

fun main_options :: "(char \<times> string) list \<Rightarrow> main_state \<Rightarrow> main_state parsed" where
  "main_options [] s = Continue s"
| "main_options ((c, arg) # os) s =
     (case main_parse_opt c arg s of
        Continue s' \<Rightarrow> main_options os s'
      | Failed e s' \<Rightarrow> Failed e s'
      | Exited evs st \<Rightarrow> Exited evs st)"

definition culvert_main ::
  "(string \<Rightarrow> string list \<Rightarrow> bridge_driver list \<Rightarrow> behaviour) \<Rightarrow> bridge_driver list
     \<Rightarrow> (char \<times> string) list \<Rightarrow> string list \<Rightarrow> event list \<times> int" where
  "culvert_main fn reg opts args =
     (case main_options opts \<lparr>registry = reg, log = level_info\<rparr> of
        Exited evs st \<Rightarrow> (evs, st)
      | Failed e s \<Rightarrow> ([Stderr ''Error parsing arguments''], EXIT_FAILURE)
      | Continue s \<Rightarrow>
          (case args of
             [] \<Rightarrow> ([ArgpUsage], argp_err_exit_status)
           | c # rest \<Rightarrow>
               if c \<in> set cmds then
                 (case fn c rest (registry s) of
                    (evs, Exit st) \<Rightarrow> (RunCommand c rest # evs, st)
                  | (evs, Return rc) \<Rightarrow>
                      (RunCommand c rest # evs, if rc \<noteq> 0 then EXIT_FAILURE else EXIT_SUCCESS))
               else ([ArgpUsage], argp_err_exit_status)))"

section \<open>The range that a read ram command line supplies\<close>

text \<open>
  The pair that a command line of read ram supplies: the value of the last \<open>-S\<close> and of
  the last \<open>-L\<close> among the keys, 0 for one that does not occur. It is read off the
  command line alone, without \<open>parse_opt_ram\<close>, so that what the parser accepts can be
  compared with what was asked for.
\<close>

fun opt_value :: "libc \<Rightarrow> char \<Rightarrow> key list \<Rightarrow> ulong \<Rightarrow> ulong" where
  "opt_value lc c [] v = v"
| "opt_value lc c (k # ks) v =
     opt_value lc c ks
       (case k of KEY_OPT c' arg \<Rightarrow> if c' = c then ul_value (strtoul lc arg) else v | _ \<Rightarrow> v)"

definition supplied_start :: "libc \<Rightarrow> key list \<Rightarrow> ulong" where
  "supplied_start lc keys = opt_value lc CHR ''S'' keys 0"

definition supplied_length :: "libc \<Rightarrow> key list \<Rightarrow> ulong" where
  "supplied_length lc keys = opt_value lc CHR ''L'' keys 0"

section \<open>The negotiator for explicit connection parameters\<close>

text \<open>
  Modelled from the spec: the two failures of a negotiation with explicit parameters
  (7), and what makes a field blank: it is absent or the empty string. The sources
  declare neither.
\<close>

datatype negotiation_error = MalformedConnection | TransportError

definition blank :: "string option \<Rightarrow> bool" where
  "blank f \<longleftrightarrow> f = None \<or> f = Some []"

text \<open>
  Modelled from the spec: \<open>host_init_new\<close>, the Host Negotiator called with explicit
  connection parameters, is not among the sources; only its callers are. The spec (3,
  4.2, 7, 8.5): the fields must be exactly the interface alone, or all of interface,
  host, port, username and password; a field that is blank counts as missing; any
  other combination fails with MalformedConnection before a network operation is
  attempted. \<open>opens\<close> tells whether the transport opens.
\<close>

definition host_init_new ::
  "(connection_args \<Rightarrow> bool) \<Rightarrow> connection_args \<Rightarrow> event list \<times> (negotiation_error + connection_args)" where
  "host_init_new opens c =
     (if ip c = None \<and> username c = None \<and> password c = None
      then ([Call ''open local bridge''], if opens c then Inr c else Inl TransportError)
      else if \<not> blank (interface c) \<and> \<not> blank (ip c) \<and> \<not> blank (username c) \<and> \<not> blank (password c)
      then ([Call ''connect''], if opens c then Inr c else Inl TransportError)
      else ([], Inl MalformedConnection))"

section \<open>A concrete target for the examples\<close>

text \<open>
  An AST2600 on which every call succeeds, with the regions of the spec's example
  (DRAM of 1 GiB at 0x80000000, 32 MiB of video RAM at its end), and a \<open>strtoul\<close> that
  knows the numerals the examples use.
\<close>

definition example_numerals :: "(string \<times> ulong) list" where
  "example_numerals =
     [(''0'', 0), (''2'', 2), (''0x1000'', 0x1000), (''0x10000'', 0x10000),
      (''0x2000000'', 0x2000000),
      (''0x80000000'', 0x80000000), (''0xb0000000'', 0xB0000000),
      (''0xffffffff'', 0xFFFFFFFF), (''0xffffffffffffffff'', 0xFFFFFFFFFFFFFFFF)]"

definition example_libc :: libc where
  "example_libc =
     \<lparr>strtoul = (\<lambda>s. case map_of example_numerals s of
                        Some v \<Rightarrow> \<lparr>ul_value = v, ul_errno = 0, ul_consumed = length s\<rparr>
                      | None \<Rightarrow> \<lparr>ul_value = 0, ul_errno = 0, ul_consumed = 0\<rparr>),
      atoi = (\<lambda>s. if s = ''2222'' then 2222 else 0)\<rparr>"

definition example_dram :: soc_region where
  "example_dram = \<lparr>start = 0x80000000, length_r = 0x40000000\<rparr>"

definition example_vram :: soc_region where
  "example_vram = \<lparr>start = 0xBE000000, length_r = 0x02000000\<rparr>"

definition example_ram_env :: ram_env where
  "example_ram_env =
     \<lparr>host_init_rc = 0, host_get_ahb_ok = True, soc_probe_rc = 0, soc_generation = ast_g6,
      sdmc_get_ok = True, sdmc_get_dram = (0, example_dram), sdmc_get_vram = (0, example_vram),
      soc_siphon_out_rc = (\<lambda>a n. 0)\<rparr>"

definition example_coproc_env :: coproc_env where
  "example_coproc_env =
     \<lparr>host_init_rc = 0, host_get_ahb_ok = True, soc_probe_rc = 0, soc_generation = ast_g6,
      sdmc_get_ok = True, sdmc_get_dram = (0, example_dram), sdmc_get_vram = (0, example_vram),
      host_init_new_rc = 0, scu_get_ok = True, scu_writel_rc = (\<lambda>i r v. 0),
      soc_siphon_in_rc = (\<lambda>a n. 0), usleep_rc = (\<lambda>i. 0)\<rparr>"

definition example_probe_env :: probe_env where
  "example_probe_env =
     \<lparr>host_init_rc = 0, host_get_ahb_ok = True, soc_probe_rc = 0,
      soc_probe_bridge_controllers = (0, bm_restricted)\<rparr>"

definition example_registry :: "bridge_driver list" where
  "example_registry =
     [\<lparr>name = ''devmem'', priority = 2, enabled = True\<rparr>,
      \<lparr>name = ''jtag'', priority = 1, enabled = True\<rparr>]"


section \<open>Properties\<close>

subsection \<open>Machine arithmetic\<close>

lemma u32max_mask: "UINT32_MAX = mask 32"
  by (simp add: UINT32_MAX_def mask_eq_exp_minus_1)

lemma unat_u32max: "unat UINT32_MAX = 2 ^ 32 - 1"
  by (simp add: UINT32_MAX_def)

lemma unat_and_u32max: "unat (x AND UINT32_MAX) = unat x mod 2 ^ 32"
proof -
  have "unat (take_bit 32 x) = take_bit 32 (unat x)"
    by (rule unsigned_take_bit_eq)
  then have "unat (x AND mask 32) = take_bit 32 (unat x)"
    unfolding take_bit_eq_mask .
  then show ?thesis
    unfolding u32max_mask by (simp only: take_bit_eq_mod)
qed

lemma unat_ucast_32_64: "unat (ucast (x :: uint32_t) :: ulong) = unat x"
proof -
  have "unat x < 2 ^ 32"
    using unsigned_less [of x, where 'a = nat] by simp
  then have "unat x < 2 ^ 64"
    by simp
  then show ?thesis
    by (simp add: unsigned_ucast_eq take_bit_nat_eq_self)
qed

lemma unat_u32_bound: "unat (x :: uint32_t) < 2 ^ 32"
  using unsigned_less [of x, where 'a = nat] by simp

lemma unat_u64_bound: "unat (x :: ulong) < 2 ^ 64"
  using unsigned_less [of x, where 'a = nat] by simp

lemma region_checks:
  fixes b z :: ulong and s l :: uint32_t
  assumes "b \<le> UINT32_MAX" and "b \<le> (b + z) AND UINT32_MAX"
    and "ucast s \<le> b" and "b + z \<le> ucast (s + l)"
  shows "unat b + unat z < 2 ^ 32 \<and> unat s \<le> unat b \<and> unat b + unat z \<le> unat s + unat l"
proof -
  have b: "unat b \<le> 2 ^ 32 - 1"
    using assms(1) by (simp add: word_le_nat_alt unat_u32max)
  have m: "unat b \<le> (unat b + unat z) mod 2 ^ 64 mod 2 ^ 32"
    using assms(2) by (simp add: word_le_nat_alt unat_and_u32max unat_word_ariths)
  have s: "unat s \<le> unat b"
    using assms(3) by (simp add: word_le_nat_alt unat_ucast_32_64)
  have e: "(unat b + unat z) mod 2 ^ 64 \<le> (unat s + unat l) mod 2 ^ 32"
    using assms(4) by (simp add: word_le_nat_alt unat_ucast_32_64 unat_word_ariths)
  have z: "unat z < 2 ^ 64" by (rule unat_u64_bound)
  have nowrap: "unat b + unat z < 2 ^ 64"
  proof (rule ccontr)
    assume "\<not> unat b + unat z < 2 ^ 64"
    then have ge: "2 ^ 64 \<le> unat b + unat z" by simp
    have lt: "unat b + unat z < 2 * 2 ^ 64" using b z by simp
    have "(unat b + unat z) mod 2 ^ 64 = unat b + unat z - 2 ^ 64"
      using ge lt by (simp add: mod_if)
    then have "(unat b + unat z) mod 2 ^ 64 < unat b" using z ge by simp
    moreover have "(unat b + unat z) mod 2 ^ 64 mod 2 ^ 32 \<le> (unat b + unat z) mod 2 ^ 64"
      by (rule mod_less_eq_dividend)
    ultimately show False using m by simp
  qed
  then have eq: "(unat b + unat z) mod 2 ^ 64 = unat b + unat z" by simp
  have "(unat s + unat l) mod 2 ^ 32 < 2 ^ 32" by simp
  then have lt32: "unat b + unat z < 2 ^ 32" using e eq by simp
  have "(unat s + unat l) mod 2 ^ 32 \<le> unat s + unat l" by (rule mod_less_eq_dividend)
  then have "unat b + unat z \<le> unat s + unat l" using e eq by simp
  with lt32 s show ?thesis by simp
qed

lemma no_wrap_nat:
  fixes s l :: ulong
  assumes "l \<le> UINT32_MAX" and "s \<le> UINT32_MAX - l"
  shows "unat s + unat l < 2 ^ 32"
proof -
  have l: "unat l \<le> 2 ^ 32 - 1"
    using assms(1) by (simp add: word_le_nat_alt unat_u32max)
  then have "unat (UINT32_MAX - l) = 2 ^ 32 - 1 - unat l"
    using assms(1) by (simp add: unat_sub unat_u32max)
  then have "unat s \<le> 2 ^ 32 - 1 - unat l"
    using assms(2) by (simp add: word_le_nat_alt)
  with l show ?thesis by simp
qed

lemma word_wrap_nat:
  fixes s l :: ulong
  assumes "UINT32_MAX - l < s" and "s \<le> UINT32_MAX - l"
  shows False
  using assms by simp

lemma ram_range_check:
  fixes s l :: ulong and ds dl :: uint32_t
  assumes "s \<le> UINT32_MAX" and "l \<le> UINT32_MAX"
  shows "\<not> (unat ds \<le> unat s \<and> unat s + unat l \<le> unat ds + unat dl)
           \<Longrightarrow> s < ucast ds \<or> s + l > ucast (ds + dl)"
    and "unat ds \<le> unat s \<and> unat s + unat l \<le> unat ds + unat dl \<Longrightarrow> unat ds + unat dl < 2 ^ 32
           \<Longrightarrow> \<not> (s < ucast ds \<or> s + l > ucast (ds + dl))"
proof -
  have s: "unat s \<le> 2 ^ 32 - 1" and l: "unat l \<le> 2 ^ 32 - 1"
    using assms by (simp_all add: word_le_nat_alt unat_u32max)
  then have "unat s + unat l < 2 ^ 64" by simp
  then have sum: "unat (s + l) = unat s + unat l"
    by (simp add: unat_word_ariths)
  have le: "unat (ds + dl) \<le> unat ds + unat dl"
    by (simp add: unat_word_ariths)
  show "s < ucast ds \<or> s + l > ucast (ds + dl)"
    if "\<not> (unat ds \<le> unat s \<and> unat s + unat l \<le> unat ds + unat dl)"
    using that le by (auto simp: word_less_nat_alt unat_ucast_32_64 sum)
  show "\<not> (s < ucast ds \<or> s + l > ucast (ds + dl))"
    if "unat ds \<le> unat s \<and> unat s + unat l \<le> unat ds + unat dl" and "unat ds + unat dl < 2 ^ 32"
  proof -
    from that(2) have "unat (ds + dl) = unat ds + unat dl"
      by (simp add: unat_word_ariths)
    with that(1) show ?thesis
      by (auto simp: word_less_nat_alt unat_ucast_32_64 sum)
  qed
qed

subsection \<open>The parser driver and the example target\<close>

lemma argp_keys_Exited:
  "argp_keys parser ks n a = Exited evs st \<Longrightarrow> \<exists>k n' a'. parser k n' a' = Exited evs st"
  by (induction ks arbitrary: n a) (auto split: parsed.splits)

lemma argp_keys_Failed:
  "argp_keys parser ks n a = Failed e a' \<Longrightarrow>
     \<exists>k n' a''. (k \<in> set ks \<or> k = KEY_END) \<and> parser k n' a'' = Failed e a'"
proof (induction ks arbitrary: n a)
  case Nil
  then show ?case by auto
next
  case (Cons k ks)
  show ?case
  proof (cases "parser k n a")
    case (Continue a1)
    with Cons.prems have "argp_keys parser ks (case k of KEY_ARG _ \<Rightarrow> Suc n | _ \<Rightarrow> n) a1 = Failed e a'"
      by simp
    from Cons.IH [OF this] show ?thesis by auto
  next
    case (Failed e1 a1)
    with Cons.prems show ?thesis by auto
  next
    case (Exited evs st)
    with Cons.prems show ?thesis by simp
  qed
qed


lemmas example_defs =
  example_libc_def example_numerals_def example_dram_def example_vram_def
  example_ram_env_def example_coproc_env_def

lemmas coproc_consts =
  SCU_COPROC_CTRL_def SCU_COPROC_CTRL_RESET_ASSERT_def SCU_COPROC_CTRL_EN_def
  SCU_COPROC_MEM_BASE_def SCU_COPROC_IMEM_LIMIT_def SCU_COPROC_DMEM_LIMIT_def
  SCU_COPROC_CACHE_RANGE_def SCU_COPROC_CACHE_1ST_16MB_EN_def SCU_COPROC_CACHE_FUNC_def
  SCU_COPROC_CACHE_EN_def COPROC_CACHED_MEM_SIZE_def COPROC_TOTAL_MEM_SIZE_def

subsection \<open>devmem\<close>

text \<open>
  C8. When \<open>devmem_init\<close> fails (a negative code) the command prints the privilege
  hint exactly when the code is \<open>-EACCES\<close> or \<open>-EPERM\<close> and the process is not root,
  and the \<open>perror\<close> message otherwise; both ways the process exits with EXIT_FAILURE
  and nothing else is done.
\<close>

theorem devmem_privilege_hint:
  assumes "devmem_parse argv = Continue ()" and "devmem_init_rc env < 0"
  shows "cmd_devmem env argv =
           (if (devmem_init_rc env = - EACCES \<or> devmem_init_rc env = - EPERM) \<and> \<not> priv_am_root env
            then ([DevmemInit, PrivPrintUnprivileged], Exit EXIT_FAILURE)
            else ([DevmemInit, Perror ''devmem_init'' (- devmem_init_rc env)], Exit EXIT_FAILURE))
         \<and> (PrivPrintUnprivileged \<in> set (fst (cmd_devmem env argv)) \<longleftrightarrow>
              (devmem_init_rc env = - EACCES \<or> devmem_init_rc env = - EPERM) \<and> \<not> priv_am_root env)
         \<and> snd (cmd_devmem env argv) = Exit EXIT_FAILURE"
  using assms by (simp add: cmd_devmem_def devmem_open_def Let_def)

theorem devmem_privilege_hint_witness:
  "cmd_devmem \<lparr>devmem_init_rc = - 13, priv_am_root = False, ast_ahb_access_rc = 0,
       devmem_destroy_rc = 0\<rparr> [''culvert devmem'', ''read'', ''0x1e6e2000'']
     = ([DevmemInit, PrivPrintUnprivileged], Exit 1)
   \<and> cmd_devmem \<lparr>devmem_init_rc = - 13, priv_am_root = True, ast_ahb_access_rc = 0,
       devmem_destroy_rc = 0\<rparr> [''culvert devmem'', ''read'', ''0x1e6e2000'']
     = ([DevmemInit, Perror ''devmem_init'' 13], Exit 1)
   \<and> cmd_devmem \<lparr>devmem_init_rc = - 2, priv_am_root = False, ast_ahb_access_rc = 0,
       devmem_destroy_rc = 0\<rparr> [''culvert devmem'', ''read'', ''0x1e6e2000'']
     = ([DevmemInit, Perror ''devmem_init'' 2], Exit 1)"
  using devmem_privilege_hint [of "[''culvert devmem'', ''read'', ''0x1e6e2000'']"
      "\<lparr>devmem_init_rc = - 13, priv_am_root = False, ast_ahb_access_rc = 0, devmem_destroy_rc = 0\<rparr>"]
    devmem_privilege_hint [of "[''culvert devmem'', ''read'', ''0x1e6e2000'']"
      "\<lparr>devmem_init_rc = - 13, priv_am_root = True, ast_ahb_access_rc = 0, devmem_destroy_rc = 0\<rparr>"]
    devmem_privilege_hint [of "[''culvert devmem'', ''read'', ''0x1e6e2000'']"
      "\<lparr>devmem_init_rc = - 2, priv_am_root = False, ast_ahb_access_rc = 0, devmem_destroy_rc = 0\<rparr>"]
  by (simp add: devmem_parse_def devmem_parse_opt_def argp_err_exit_status_def EACCES_def EPERM_def
      EXIT_FAILURE_def)

subsection \<open>console and sfc: the code returned when a controller is missing\<close>

text \<open>
  C3. A step that fails after \<open>soc_probe\<close> succeeded must give a code that is not 0.
  The code does not: when \<open>clk_get\<close> (or \<open>uart_mux_get\<close>) returns NULL in
  \<open>cmd_console\<close>, and when \<open>sfc_get_by_name\<close> returns NULL in \<open>cmd_sfc\<close>, the
  command jumps to its cleanup with \<open>rc\<close> still holding the 0 of \<open>soc_probe\<close> and
  returns it. (\<open>cmd_read_ram\<close> and the coprocessor commands set \<open>rc\<close> on the
  same failure.)
\<close>

theorem command_failure_returns_success:
  "cmd_console \<lparr>strtoul = (\<lambda>s. \<lparr>ul_value = 0, ul_errno = 0, ul_consumed = 0\<rparr>), atoi = (\<lambda>s. 115200)\<rparr>
     \<lparr>host_init_rc = 0, host_get_ahb_ok = True, soc_probe_rc = 0, clk_get_ok = False,
       uart_mux_get_ok = True, clk_enable_rc = 0, uart_mux_route_rc = 0, suart_init_rc = 0,
       suart_step_rc = (\<lambda>i. 0)\<rparr>
     [''culvert console'', ''uart3'', ''uart2'', ''115200'', ''root'', ''0penBmc'']
   = ([HostInit 2, HostGetAhb, SocProbe, Call ''clk_get'', Call ''soc_destroy'', Call ''host_destroy''],
      Return 0)
  \<and> cmd_sfc \<lparr>strtoul = (\<lambda>s. \<lparr>ul_value = 4096, ul_errno = 0, ul_consumed = 6\<rparr>), atoi = (\<lambda>s. 0)\<rparr>
     \<lparr>host_init_rc = 0, host_get_ahb_ok = True, soc_probe_rc = 0, sfc_get_ok = False,
       flash_init_rc = 0, malloc_ok = True, flash_read_rc = 0, write_stdout = (0, 0),
       stdin_reads = [], flash_write_rc = (\<lambda>a n. 0), flash_erase_rc = 0\<rparr>
     [KEY_OPT CHR ''t'' ''fmc'', KEY_OPT CHR ''m'' ''read'', KEY_OPT CHR ''a'' ''0x1000'',
      KEY_OPT CHR ''l'' ''0x1000'']
   = ([HostInit 0, HostGetAhb, SocProbe, Call ''sfc_get_by_name'', Call ''soc_destroy'',
       Call ''host_destroy''], Return 0)"
  by (simp add: cmd_console_def console_parse_opt_def console_session_def cmd_sfc_def
      sfc_parse_opt_def sfc_session_def sfc_args0_def flash_op_read_def Let_def)

subsection \<open>sfc: the write loop\<close>













subsection \<open>read ram: the range that is dumped\<close>

text \<open>
  C2. An explicit pair that is not contained in the DRAM region must be rejected with
  \<open>-EINVAL\<close>. The code does not do so when one of the two values is 0: the branch that
  checks the pair is taken only when both are nonzero. \<open>-S 0 -L 0x1000\<close> supplies the
  pair 0, 0x1000; it lies below the DRAM of the example; the command does not reject
  it but dumps the default range and returns 0. (The help text of the command says
  that the region given with \<open>-S\<close> and \<open>-L\<close> is the one dumped.)
\<close>

theorem read_ram_zero_start_not_rejected:
  "supplied_start example_libc [KEY_OPT CHR ''S'' ''0'', KEY_OPT CHR ''L'' ''0x1000''] = 0
   \<and> supplied_length example_libc [KEY_OPT CHR ''S'' ''0'', KEY_OPT CHR ''L'' ''0x1000''] = 0x1000
   \<and> (0 :: ulong) < ucast (start (snd (sdmc_get_dram example_ram_env)))
   \<and> cmd_read_ram example_libc example_ram_env [KEY_OPT CHR ''S'' ''0'', KEY_OPT CHR ''L'' ''0x1000'']
     = ([HostInit 0, HostGetAhb, SocProbe, Call ''sdmc_get'', SdmcGetDram, SdmcGetVram,
         SiphonOut 0x80000000 0x3E000000, Call ''soc_destroy'', Call ''host_destroy''], Return 0)"
  by (simp add: cmd_read_ram_def ram_parse_def parse_opt_ram_def ram_args0_def
      read_ram_session_def ram_siphon_def example_defs Let_def ULONG_MAX_def UINT32_MAX_def
      supplied_start_def supplied_length_def)

text \<open>
  What the range check does elsewhere. For values of at most UINT32_MAX, both nonzero:
  a pair that is not contained in the DRAM region is rejected with \<open>-EINVAL\<close> and
  nothing is transferred; a pair that is contained is the one dumped, provided that
  \<open>dram.start + dram.length\<close> does not wrap \<open>uint32_t\<close>. With both values 0 the
  range is the default one.
\<close>

lemma read_ram_range:
  assumes "0 \<le> host_init_rc env" and "host_get_ahb_ok env" and "0 \<le> soc_probe_rc env"
    and "sdmc_get_ok env" and "sdmc_get_dram env = (0, dram)"
    and "start_arg a \<le> UINT32_MAX" and "length_arg a \<le> UINT32_MAX"
  shows
    "(start_arg a = 0 \<and> length_arg a = 0 \<and> sdmc_get_vram env = (0, vram) \<longrightarrow>
        read_ram_session env a =
          ram_siphon env
            [HostInit (key_arg_count a), HostGetAhb, SocProbe, Call ''sdmc_get'', SdmcGetDram,
             SdmcGetVram]
            (a\<lparr>start_arg := ucast (start dram),
               length_arg := ucast (length_r dram - length_r vram)\<rparr>))
     \<and> (start_arg a \<noteq> 0 \<and> length_arg a \<noteq> 0
          \<and> \<not> (unat (start dram) \<le> unat (start_arg a)
                \<and> unat (start_arg a) + unat (length_arg a) \<le> unat (start dram) + unat (length_r dram)) \<longrightarrow>
        read_ram_session env a =
          ([HostInit (key_arg_count a), HostGetAhb, SocProbe, Call ''sdmc_get'', SdmcGetDram,
            Call ''soc_destroy'', Call ''host_destroy''], Return (- EINVAL)))
     \<and> (start_arg a \<noteq> 0 \<and> length_arg a \<noteq> 0
          \<and> unat (start dram) \<le> unat (start_arg a)
          \<and> unat (start_arg a) + unat (length_arg a) \<le> unat (start dram) + unat (length_r dram)
          \<and> unat (start dram) + unat (length_r dram) < 2 ^ 32 \<longrightarrow>
        read_ram_session env a =
          ram_siphon env
            [HostInit (key_arg_count a), HostGetAhb, SocProbe, Call ''sdmc_get'', SdmcGetDram] a)"
proof -
  note chk = ram_range_check [OF assms(6,7), of "start dram" "length_r dram"]
  have 1: "read_ram_session env a =
          ram_siphon env
            [HostInit (key_arg_count a), HostGetAhb, SocProbe, Call ''sdmc_get'', SdmcGetDram,
             SdmcGetVram]
            (a\<lparr>start_arg := ucast (start dram),
               length_arg := ucast (length_r dram - length_r vram)\<rparr>)"
    if "start_arg a = 0 \<and> length_arg a = 0 \<and> sdmc_get_vram env = (0, vram)"
    using that assms(1-5) by (simp add: read_ram_session_def Let_def)
  have 2: "read_ram_session env a =
          ([HostInit (key_arg_count a), HostGetAhb, SocProbe, Call ''sdmc_get'', SdmcGetDram,
            Call ''soc_destroy'', Call ''host_destroy''], Return (- EINVAL))"
    if "start_arg a \<noteq> 0 \<and> length_arg a \<noteq> 0
          \<and> \<not> (unat (start dram) \<le> unat (start_arg a)
                \<and> unat (start_arg a) + unat (length_arg a) \<le> unat (start dram) + unat (length_r dram))"
  proof -
    from that chk(1) have "start_arg a < ucast (start dram)
        \<or> start_arg a + length_arg a > ucast (start dram + length_r dram)" by blast
    with that assms(1-5) show ?thesis by (simp add: read_ram_session_def Let_def)
  qed
  have 3: "read_ram_session env a =
          ram_siphon env
            [HostInit (key_arg_count a), HostGetAhb, SocProbe, Call ''sdmc_get'', SdmcGetDram] a"
    if "start_arg a \<noteq> 0 \<and> length_arg a \<noteq> 0
          \<and> unat (start dram) \<le> unat (start_arg a)
          \<and> unat (start_arg a) + unat (length_arg a) \<le> unat (start dram) + unat (length_r dram)
          \<and> unat (start dram) + unat (length_r dram) < 2 ^ 32"
  proof -
    from that chk(2) have "\<not> (start_arg a < ucast (start dram)
        \<or> start_arg a + length_arg a > ucast (start dram + length_r dram))" by blast
    with that assms(1-5) show ?thesis by (simp add: read_ram_session_def Let_def)
  qed
  from 1 2 3 show ?thesis by blast
qed

text \<open>
  Where \<open>dram.start + dram.length\<close> is \<open>2^32\<close> the sum is 0 in \<open>uint32_t\<close> and every
  explicit pair is rejected, a contained one too.
\<close>

lemma read_ram_full_dram_rejects_contained:
  "read_ram_session
     (example_ram_env\<lparr>sdmc_get_dram := (0, \<lparr>start = 0x80000000, length_r = 0x80000000\<rparr>)\<rparr>)
     \<lparr>key_arg_count = 0, start_arg = 0x90000000, length_arg = 0x1000\<rparr>
   = ([HostInit 0, HostGetAhb, SocProbe, Call ''sdmc_get'', SdmcGetDram,
       Call ''soc_destroy'', Call ''host_destroy''], Return (- 22))"
  by (simp add: read_ram_session_def example_defs Let_def EINVAL_def)

text \<open>
  C9. When the start or the length is 0 the command behaves as if neither had been
  given: the value of the other one has no effect, no check against the DRAM region is
  made, and the range dumped is the default one.
\<close>

theorem read_ram_zero_falls_back:
  assumes "start_arg a = 0 \<or> length_arg a = 0"
  shows "read_ram_session env a = read_ram_session env (a\<lparr>start_arg := 0, length_arg := 0\<rparr>)
    \<and> (0 \<le> host_init_rc env \<and> host_get_ahb_ok env \<and> 0 \<le> soc_probe_rc env \<and> sdmc_get_ok env
         \<and> sdmc_get_dram env = (0, dram) \<and> sdmc_get_vram env = (0, vram) \<longrightarrow>
        read_ram_session env a =
          ram_siphon env
            [HostInit (key_arg_count a), HostGetAhb, SocProbe, Call ''sdmc_get'', SdmcGetDram,
             SdmcGetVram]
            (a\<lparr>start_arg := ucast (start dram),
               length_arg := ucast (length_r dram - length_r vram)\<rparr>))"
  using assms by (auto simp: read_ram_session_def Let_def)

theorem read_ram_zero_falls_back_witness:
  "read_ram_session example_ram_env \<lparr>key_arg_count = 0, start_arg = 0, length_arg = 0x1000\<rparr>
     = read_ram_session example_ram_env \<lparr>key_arg_count = 0, start_arg = 0, length_arg = 0\<rparr>
   \<and> read_ram_session example_ram_env \<lparr>key_arg_count = 0, start_arg = 0, length_arg = 0x1000\<rparr>
     = ([HostInit 0, HostGetAhb, SocProbe, Call ''sdmc_get'', SdmcGetDram, SdmcGetVram,
         SiphonOut 0x80000000 0x3E000000, Call ''soc_destroy'', Call ''host_destroy''], Return 0)"
  using read_ram_zero_falls_back [where env = example_ram_env and dram = example_dram
      and vram = example_vram
      and a = "\<lparr>key_arg_count = 0, start_arg = 0, length_arg = 0x1000\<rparr>"]
  by (simp add: ram_siphon_def example_defs read_ram_session_def Let_def)

subsection \<open>coprocessor: what guards the SCU registers\<close>

lemma parse_opt_run_Exited:
  "parse_opt_run lc argv k n a = Exited evs st \<Longrightarrow>
     st = argp_err_exit_status \<and> (evs = [ArgpUsage] \<or> (\<exists>m. evs = [ArgpError m]))"
  by (auto simp: parse_opt_run_def Let_def split: key.splits if_splits prod.splits)

lemma run_parse_Exited:
  "run_parse lc argv = Exited evs st \<Longrightarrow>
     st = argp_err_exit_status \<and> (evs = [ArgpUsage] \<or> (\<exists>m. evs = [ArgpError m]))"
  unfolding run_parse_def by (blast dest: argp_keys_Exited parse_opt_run_Exited)

lemma run_steps_events: "set (fst (run_steps ss)) \<subseteq> fst ` set ss"
  by (induction ss) (auto split: prod.splits if_splits)

lemma stop_session_guard:
  "ScuWritel r v \<in> set (fst (coprocessor_stop_session env argc)) \<Longrightarrow> soc_generation env = ast_g6"
  by (auto simp: coprocessor_stop_session_def Let_def split: if_splits)

lemma run_session_guard:
  assumes "ScuWritel r v \<in> set (fst (coprocessor_run_session env a))
             \<or> SiphonIn x y \<in> set (fst (coprocessor_run_session env a))"
  shows "soc_generation env = ast_g6
    \<and> unat (mem_base a) + unat (mem_size a) < 2 ^ 32
    \<and> unat (start (snd (sdmc_get_dram env))) \<le> unat (mem_base a)
    \<and> unat (mem_base a) + unat (mem_size a)
        \<le> unat (start (snd (sdmc_get_dram env))) + unat (length_r (snd (sdmc_get_dram env)))"
proof -
  let ?d = "snd (sdmc_get_dram env)"
  have reach: "soc_generation env = ast_g6 \<and> mem_base a \<le> UINT32_MAX
      \<and> mem_base a \<le> (mem_base a + mem_size a) AND UINT32_MAX
      \<and> ucast (start ?d) \<le> mem_base a
      \<and> mem_base a + mem_size a \<le> ucast (start ?d + length_r ?d)"
    using assms
    by (auto simp: coprocessor_run_session_def Let_def not_less split: if_splits prod.splits)
  with region_checks [of "mem_base a" "mem_size a" "start ?d" "length_r ?d"]
  show ?thesis by simp
qed

lemma stop_cmd_guard:
  "ScuWritel r v \<in> set (fst (cmd_coprocessor_stop env argv)) \<Longrightarrow> soc_generation env = ast_g6"
  by (auto simp: cmd_coprocessor_stop_def dest: stop_session_guard split: if_splits)

lemma run_cmd_session:
  "ScuWritel r v \<in> set (fst (cmd_coprocessor_run lc env argv)) \<Longrightarrow>
     \<exists>a. cmd_coprocessor_run lc env argv = coprocessor_run_session env a"
  by (auto simp: cmd_coprocessor_run_def split: parsed.splits dest: run_parse_Exited)

lemma example_run_parse:
  "run_parse example_libc [''culvert run'', ''0xb0000000'', ''0x2000000'']
     = Continue \<lparr>mem_base = 0xB0000000, mem_size = 0x2000000, connection = no_connection\<rparr>"
  by (simp add: run_parse_def parse_opt_run_def example_defs run_args0_def Let_def
      ULONG_MAX_def coproc_consts)

lemma example_run_session:
  "coprocessor_run_session example_coproc_env
      \<lparr>mem_base = 0xB0000000, mem_size = 0x2000000, connection = no_connection\<rparr>
   = ([HostInitNew no_connection, HostGetAhb, SocProbe, Call ''sdmc_get'', SdmcGetDram,
       Call ''scu_get'',
       ScuWritel 0xa00 0, ScuWritel 0xa00 2, SiphonIn 0xB0000000 0x2000000,
       ScuWritel 0xa04 0xB0000000, ScuWritel 0xa08 0xB1000000, ScuWritel 0xa0c 0xB2000000,
       ScuWritel 0xa40 1, ScuWritel 0xa48 1, Call ''usleep'', ScuWritel 0xa00 0,
       Call ''usleep'', ScuWritel 0xa00 1,
       Call ''scu_put'', Call ''soc_destroy'', Call ''host_destroy''], Return 0)"
  by (simp add: coprocessor_run_session_def coprocessor_program_def example_defs Let_def
      UINT32_MAX_def coproc_consts EXIT_SUCCESS_def EXIT_FAILURE_def)

lemma example_stop:
  "cmd_coprocessor_stop example_coproc_env [''culvert stop'']
   = ([HostInit 1, HostGetAhb, SocProbe, Call ''scu_get'', ScuWritel 0xa00 0, Call ''scu_put'',
       Call ''soc_destroy'', Call ''host_destroy''], Return 0)"
  by (simp add: cmd_coprocessor_stop_def coprocessor_stop_session_def example_defs Let_def
      coproc_consts EXIT_FAILURE_def)

text \<open>
  C5. A write to an SCU register occurs in the stop command only on a chip of
  generation \<open>ast_g6\<close>. In the run command it occurs only in the session that follows
  the parsing of the arguments, and there only if the chip is \<open>ast_g6\<close>, \<open>mem_base +
  mem_size\<close> stays below \<open>2^32\<close> and the range lies within the DRAM region that
  \<open>sdmc_get_dram\<close> gave.
\<close>

theorem coprocessor_writes_guarded:
  "(ScuWritel r v \<in> set (fst (cmd_coprocessor_stop env stop_argv)) \<longrightarrow> soc_generation env = ast_g6)
   \<and> (ScuWritel r v \<in> set (fst (cmd_coprocessor_run lc env argv)) \<longrightarrow>
        (\<exists>a. cmd_coprocessor_run lc env argv = coprocessor_run_session env a))
   \<and> (ScuWritel r v \<in> set (fst (coprocessor_run_session env a)) \<longrightarrow>
        soc_generation env = ast_g6
        \<and> unat (mem_base a) + unat (mem_size a) < 2 ^ 32
        \<and> unat (start (snd (sdmc_get_dram env))) \<le> unat (mem_base a)
        \<and> unat (mem_base a) + unat (mem_size a)
            \<le> unat (start (snd (sdmc_get_dram env))) + unat (length_r (snd (sdmc_get_dram env))))"
  using stop_cmd_guard [of r v env stop_argv] run_cmd_session [of r v lc env argv]
    run_session_guard [of r v env a] by blast

theorem coprocessor_writes_guarded_witness:
  "ScuWritel 0xa00 0 \<in> set (fst (cmd_coprocessor_stop example_coproc_env [''culvert stop'']))
   \<and> ScuWritel 0xa00 0 \<in> set (fst (cmd_coprocessor_run example_libc example_coproc_env
          [''culvert run'', ''0xb0000000'', ''0x2000000'']))
   \<and> ScuWritel 0xa00 0 \<in> set (fst (coprocessor_run_session example_coproc_env
          \<lparr>mem_base = 0xB0000000, mem_size = 0x2000000, connection = no_connection\<rparr>))
   \<and> soc_generation example_coproc_env = ast_g6
   \<and> unat (0xB0000000 :: ulong) + unat (0x2000000 :: ulong) < 2 ^ 32
   \<and> unat (start (snd (sdmc_get_dram example_coproc_env))) \<le> unat (0xB0000000 :: ulong)
   \<and> unat (0xB0000000 :: ulong) + unat (0x2000000 :: ulong)
        \<le> unat (start (snd (sdmc_get_dram example_coproc_env)))
          + unat (length_r (snd (sdmc_get_dram example_coproc_env)))"
  using coprocessor_writes_guarded [where r = "0xa00" and v = 0 and env = example_coproc_env
      and stop_argv = "[''culvert stop'']" and lc = example_libc
      and argv = "[''culvert run'', ''0xb0000000'', ''0x2000000'']"
      and a = "\<lparr>mem_base = 0xB0000000, mem_size = 0x2000000, connection = no_connection\<rparr>"]
  by (simp add: example_stop example_run_session cmd_coprocessor_run_def example_run_parse)

subsection \<open>Ranges that wrap the address space\<close>

lemma parse_opt_ram_bounds:
  assumes "parse_opt_ram lc k n a0 = Continue a"
    and "start_arg a0 \<le> UINT32_MAX" and "length_arg a0 \<le> UINT32_MAX"
  shows "start_arg a \<le> UINT32_MAX \<and> length_arg a \<le> UINT32_MAX"
  using assms
  by (auto simp: parse_opt_ram_def Let_def not_less split: key.splits if_splits)

lemma parse_opt_ram_end:
  assumes "parse_opt_ram lc KEY_END n a0 = Continue a"
  shows "a = a0 \<and> start_arg a \<le> UINT32_MAX - length_arg a"
  using assms
  by (auto simp: parse_opt_ram_def Let_def not_less split: if_splits)

lemma ram_keys_accepted:
  assumes "argp_keys (parse_opt_ram lc) ks n a0 = Continue a"
    and "start_arg a0 \<le> UINT32_MAX" and "length_arg a0 \<le> UINT32_MAX"
  shows "start_arg a \<le> UINT32_MAX \<and> length_arg a \<le> UINT32_MAX
     \<and> start_arg a \<le> UINT32_MAX - length_arg a"
  using assms
proof (induction ks arbitrary: n a0)
  case Nil
  then have "parse_opt_ram lc KEY_END n a0 = Continue a" by simp
  from parse_opt_ram_end [OF this] Nil.prems(2,3) show ?case by auto
next
  case (Cons k ks)
  from Cons.prems(1) obtain a1 where
    step: "parse_opt_ram lc k n a0 = Continue a1" and
    rest: "argp_keys (parse_opt_ram lc) ks (case k of KEY_ARG _ \<Rightarrow> Suc n | _ \<Rightarrow> n) a1 = Continue a"
    by (auto split: parsed.splits)
  from parse_opt_ram_bounds [OF step Cons.prems(2,3)] Cons.IH [OF rest]
  show ?case by simp
qed

lemma parse_opt_ram_Exited:
  "parse_opt_ram lc k n a = Exited evs st \<Longrightarrow>
     st = argp_err_exit_status \<and> (\<exists>m. evs = [ArgpError m])"
  by (auto simp: parse_opt_ram_def Let_def split: key.splits if_splits)

lemma ram_parse_Exited:
  "ram_parse lc keys = Exited evs st \<Longrightarrow> st = argp_err_exit_status \<and> (\<exists>m. evs = [ArgpError m])"
  unfolding ram_parse_def by (blast dest: argp_keys_Exited parse_opt_ram_Exited)

lemma parse_opt_ram_Failed:
  "parse_opt_ram lc k n a = Failed e a' \<Longrightarrow>
     \<exists>c arg. k = KEY_OPT c arg \<and> UINT32_MAX < ul_value (strtoul lc arg)"
  by (auto simp: parse_opt_ram_def Let_def ULONG_MAX_def UINT32_MAX_def split: key.splits if_splits)

lemma ram_parse_not_Failed:
  assumes "\<forall>c arg. KEY_OPT c arg \<in> set keys \<longrightarrow> ul_value (strtoul lc arg) \<le> UINT32_MAX"
  shows "ram_parse lc keys \<noteq> Failed e a"
proof
  assume "ram_parse lc keys = Failed e a"
  from argp_keys_Failed [OF this [unfolded ram_parse_def]] obtain k n' a''
    where k: "k \<in> set keys \<or> k = KEY_END" and f: "parse_opt_ram lc k n' a'' = Failed e a"
    by blast
  from parse_opt_ram_Failed [OF f] obtain c arg
    where "k = KEY_OPT c arg" "UINT32_MAX < ul_value (strtoul lc arg)" by blast
  with k assms show False by (auto simp: not_le [symmetric])
qed

lemma ram_parse_accepted:
  assumes "ram_parse lc keys = Continue a"
  shows "unat (start_arg a) + unat (length_arg a) < 2 ^ 32"
proof -
  have "start_arg ram_args0 \<le> UINT32_MAX" "length_arg ram_args0 \<le> UINT32_MAX"
    by (simp_all add: ram_args0_def)
  from ram_keys_accepted [OF assms [unfolded ram_parse_def] this]
  show ?thesis using no_wrap_nat [of "length_arg a" "start_arg a"] by blast
qed

lemma parse_opt_ram_values:
  "parse_opt_ram lc k n a0 = Continue a \<Longrightarrow>
     start_arg a = (case k of KEY_OPT c' arg \<Rightarrow>
                      if c' = CHR ''S'' then ul_value (strtoul lc arg) else start_arg a0
                    | _ \<Rightarrow> start_arg a0)
     \<and> length_arg a = (case k of KEY_OPT c' arg \<Rightarrow>
                      if c' = CHR ''L'' then ul_value (strtoul lc arg) else length_arg a0
                    | _ \<Rightarrow> length_arg a0)"
  by (auto simp: parse_opt_ram_def Let_def split: key.splits if_splits)

lemma ram_keys_values:
  "argp_keys (parse_opt_ram lc) ks n a0 = Continue a \<Longrightarrow>
     start_arg a = opt_value lc CHR ''S'' ks (start_arg a0)
     \<and> length_arg a = opt_value lc CHR ''L'' ks (length_arg a0)"
proof (induction ks arbitrary: n a0)
  case Nil
  then have "parse_opt_ram lc KEY_END n a0 = Continue a" by simp
  from parse_opt_ram_end [OF this] show ?case by simp
next
  case (Cons k ks)
  from Cons.prems obtain a1 where
    step: "parse_opt_ram lc k n a0 = Continue a1" and
    rest: "argp_keys (parse_opt_ram lc) ks (case k of KEY_ARG _ \<Rightarrow> Suc n | _ \<Rightarrow> n) a1 = Continue a"
    by (auto split: parsed.splits)
  from parse_opt_ram_values [OF step] Cons.IH [OF rest] show ?case by simp
qed

lemma ram_parse_values:
  "ram_parse lc keys = Continue a \<Longrightarrow>
     start_arg a = supplied_start lc keys \<and> length_arg a = supplied_length lc keys"
  using ram_keys_values [of lc keys 0 ram_args0 a]
  by (simp add: ram_parse_def supplied_start_def supplied_length_def ram_args0_def)

lemma ram_parse_in_range:
  assumes "\<forall>c arg. KEY_OPT c arg \<in> set keys \<longrightarrow> ul_value (strtoul lc arg) \<le> UINT32_MAX"
  shows "(\<exists>m. cmd_read_ram lc env keys = ([ArgpError m], Exit argp_err_exit_status))
     \<or> (\<exists>a. ram_parse lc keys = Continue a \<and> cmd_read_ram lc env keys = read_ram_session env a
           \<and> start_arg a = supplied_start lc keys \<and> length_arg a = supplied_length lc keys
           \<and> start_arg a \<le> UINT32_MAX - length_arg a
           \<and> unat (start_arg a) + unat (length_arg a) < 2 ^ 32)"
proof (cases "ram_parse lc keys")
  case (Continue a)
  have "start_arg ram_args0 \<le> UINT32_MAX" "length_arg ram_args0 \<le> UINT32_MAX"
    by (simp_all add: ram_args0_def)
  from ram_keys_accepted [OF Continue [unfolded ram_parse_def] this]
  have "start_arg a \<le> UINT32_MAX - length_arg a" by simp
  with Continue ram_parse_values [OF Continue] ram_parse_accepted [OF Continue]
  show ?thesis by (simp add: cmd_read_ram_def)
next
  case (Failed e a)
  with ram_parse_not_Failed [OF assms, of e a] show ?thesis by simp
next
  case (Exited evs st)
  with ram_parse_Exited [OF Exited] show ?thesis by (auto simp: cmd_read_ram_def)
qed

lemma run_session_wrap_rejected:
  assumes "2 ^ 32 \<le> unat (mem_base a) + unat (mem_size a)"
  shows "snd (coprocessor_run_session env a) = Return EXIT_FAILURE"
proof -
  let ?d = "snd (sdmc_get_dram env)"
  have "\<not> (mem_base a \<le> UINT32_MAX
      \<and> mem_base a \<le> (mem_base a + mem_size a) AND UINT32_MAX
      \<and> ucast (start ?d) \<le> mem_base a
      \<and> mem_base a + mem_size a \<le> ucast (start ?d + length_r ?d))"
    using region_checks [of "mem_base a" "mem_size a" "start ?d" "length_r ?d"] assms by auto
  then show ?thesis
    by (auto simp: coprocessor_run_session_def Let_def not_le split: if_splits prod.splits)
qed

lemma run_session_wrap_no_transfer:
  assumes "2 ^ 32 \<le> unat (mem_base a) + unat (mem_size a)"
  shows "ScuWritel r v \<notin> set (fst (coprocessor_run_session env a))
     \<and> SiphonIn x y \<notin> set (fst (coprocessor_run_session env a))"
  using run_session_guard [of r v env a x y] assms by auto

lemma run_cmd_wrap_rejected:
  assumes "run_parse lc argv = Continue b" and "2 ^ 32 \<le> unat (mem_base b) + unat (mem_size b)"
  shows "snd (cmd_coprocessor_run lc env argv) = Return EXIT_FAILURE
     \<and> ScuWritel r v \<notin> set (fst (cmd_coprocessor_run lc env argv))
     \<and> SiphonIn x y \<notin> set (fst (cmd_coprocessor_run lc env argv))"
  using assms(1) run_session_wrap_rejected [OF assms(2), of env]
    run_session_wrap_no_transfer [OF assms(2), of r v env x y]
  by (simp add: cmd_coprocessor_run_def)

lemma example_ram_parse_ok:
  "ram_parse example_libc [KEY_OPT CHR ''S'' ''0x80000000'', KEY_OPT CHR ''L'' ''0x1000'']
     = Continue \<lparr>key_arg_count = 0, start_arg = 0x80000000, length_arg = 0x1000\<rparr>"
  by (simp add: ram_parse_def parse_opt_ram_def example_defs ram_args0_def Let_def
      ULONG_MAX_def UINT32_MAX_def)

lemma example_ram_parse_wrap:
  "ram_parse example_libc [KEY_OPT CHR ''S'' ''0xffffffff'', KEY_OPT CHR ''L'' ''0x1000'']
     = Exited [ArgpError ''RAM region start address + length exceeds address space''] 64"
  by (simp add: ram_parse_def parse_opt_ram_def example_defs ram_args0_def Let_def
      ULONG_MAX_def UINT32_MAX_def argp_err_exit_status_def)

lemma example_supplied:
  "supplied_start example_libc [KEY_OPT CHR ''S'' ''0xffffffff'', KEY_OPT CHR ''L'' ''0x1000'']
     = 0xFFFFFFFF
   \<and> supplied_length example_libc [KEY_OPT CHR ''S'' ''0xffffffff'', KEY_OPT CHR ''L'' ''0x1000'']
     = 0x1000
   \<and> supplied_start example_libc [KEY_OPT CHR ''S'' ''0x80000000'', KEY_OPT CHR ''L'' ''0x1000'']
     = 0x80000000
   \<and> supplied_length example_libc [KEY_OPT CHR ''S'' ''0x80000000'', KEY_OPT CHR ''L'' ''0x1000'']
     = 0x1000"
  by (simp add: supplied_start_def supplied_length_def example_defs)

lemma example_ram_cmd_ok:
  "cmd_read_ram example_libc example_ram_env
     [KEY_OPT CHR ''S'' ''0x80000000'', KEY_OPT CHR ''L'' ''0x1000'']
   = ([HostInit 0, HostGetAhb, SocProbe, Call ''sdmc_get'', SdmcGetDram,
       SiphonOut 0x80000000 0x1000, Call ''soc_destroy'', Call ''host_destroy''], Return 0)"
  unfolding cmd_read_ram_def example_ram_parse_ok
  by (simp add: read_ram_session_def ram_siphon_def example_defs Let_def)

lemma example_run_parse_wrap:
  "run_parse example_libc [''culvert run'', ''0xffffffff'', ''0x2000000'']
     = Continue \<lparr>mem_base = 0xFFFFFFFF, mem_size = 0x2000000, connection = no_connection\<rparr>"
  by (simp add: run_parse_def parse_opt_run_def example_defs run_args0_def Let_def
      ULONG_MAX_def coproc_consts)

text \<open>
  C6, as stated, fails for coprocessor run: a pair that wraps is rejected, but only
  after the host was initialised, the SoC probed over the bus and the DRAM region read.
\<close>

theorem coprocessor_wrap_rejected_after_probe:
  "UINT32_MAX - 0x2000000 < (0xFFFFFFFF :: ulong)
   \<and> cmd_coprocessor_run example_libc example_coproc_env
        [''culvert run'', ''0xffffffff'', ''0x2000000'']
      = ([HostInitNew no_connection, HostGetAhb, SocProbe, Call ''sdmc_get'', SdmcGetDram,
          Call ''soc_destroy'', Call ''host_destroy''], Return 1)"
  by (simp add: cmd_coprocessor_run_def run_parse_def parse_opt_run_def run_args0_def
      coprocessor_run_session_def example_defs Let_def ULONG_MAX_def UINT32_MAX_def
      coproc_consts EXIT_FAILURE_def)

text \<open>
  C6, amended. read ram, on a command line whose option values are all at most
  UINT32_MAX: if the pair supplied (the last \<open>-S\<close> and the last \<open>-L\<close>, 0 for one that
  is absent) has \<open>UINT32_MAX - length < start\<close>, the process ends in \<open>argp_error\<close>,
  with no event but argp's message; and if the command does not end so, it goes on
  with exactly the pair supplied, and \<open>start + length\<close> is below \<open>2^32\<close>.
  coprocessor run: a parsed pair with \<open>mem_base + mem_size \<ge> 2^32\<close> makes the command
  return EXIT_FAILURE with no SCU register written and no firmware loaded (the calls
  before the check, up to \<open>sdmc_get_dram\<close>, are made).
\<close>

theorem wrapping_range_rejected:
  "((\<forall>c arg. KEY_OPT c arg \<in> set keys \<longrightarrow> ul_value (strtoul lc arg) \<le> UINT32_MAX)
      \<and> UINT32_MAX - supplied_length lc keys < supplied_start lc keys \<longrightarrow>
        (\<exists>m. cmd_read_ram lc env keys = ([ArgpError m], Exit argp_err_exit_status)))
   \<and> ((\<forall>c arg. KEY_OPT c arg \<in> set keys \<longrightarrow> ul_value (strtoul lc arg) \<le> UINT32_MAX)
      \<and> (\<forall>m. cmd_read_ram lc env keys \<noteq> ([ArgpError m], Exit argp_err_exit_status)) \<longrightarrow>
        (\<exists>a. cmd_read_ram lc env keys = read_ram_session env a
           \<and> start_arg a = supplied_start lc keys \<and> length_arg a = supplied_length lc keys)
        \<and> unat (supplied_start lc keys) + unat (supplied_length lc keys) < 2 ^ 32)
   \<and> (run_parse lc argv = Continue b \<and> 2 ^ 32 \<le> unat (mem_base b) + unat (mem_size b) \<longrightarrow>
        snd (cmd_coprocessor_run lc cenv argv) = Return EXIT_FAILURE
        \<and> ScuWritel r v \<notin> set (fst (cmd_coprocessor_run lc cenv argv))
        \<and> SiphonIn x y \<notin> set (fst (cmd_coprocessor_run lc cenv argv)))"
proof -
  have 1: "\<exists>m. cmd_read_ram lc env keys = ([ArgpError m], Exit argp_err_exit_status)"
    if "\<forall>c arg. KEY_OPT c arg \<in> set keys \<longrightarrow> ul_value (strtoul lc arg) \<le> UINT32_MAX"
      and "UINT32_MAX - supplied_length lc keys < supplied_start lc keys"
    using ram_parse_in_range [OF that(1), of env] that(2) by (auto dest: word_wrap_nat)
  have 2: "(\<exists>a. cmd_read_ram lc env keys = read_ram_session env a
           \<and> start_arg a = supplied_start lc keys \<and> length_arg a = supplied_length lc keys)
        \<and> unat (supplied_start lc keys) + unat (supplied_length lc keys) < 2 ^ 32"
    if "\<forall>c arg. KEY_OPT c arg \<in> set keys \<longrightarrow> ul_value (strtoul lc arg) \<le> UINT32_MAX"
      and "\<forall>m. cmd_read_ram lc env keys \<noteq> ([ArgpError m], Exit argp_err_exit_status)"
    using ram_parse_in_range [OF that(1), of env] that(2) by auto
  from 1 2 run_cmd_wrap_rejected [of lc argv b cenv r v x y] show ?thesis by blast
qed

theorem wrapping_range_rejected_witness:
  "cmd_read_ram example_libc example_ram_env
        [KEY_OPT CHR ''S'' ''0xffffffff'', KEY_OPT CHR ''L'' ''0x1000'']
      = ([ArgpError ''RAM region start address + length exceeds address space''], Exit 64)
   \<and> cmd_read_ram example_libc example_ram_env
        [KEY_OPT CHR ''S'' ''0x80000000'', KEY_OPT CHR ''L'' ''0x1000'']
      = ([HostInit 0, HostGetAhb, SocProbe, Call ''sdmc_get'', SdmcGetDram,
          SiphonOut 0x80000000 0x1000, Call ''soc_destroy'', Call ''host_destroy''], Return 0)
   \<and> unat (0x80000000 :: ulong) + unat (0x1000 :: ulong) < 2 ^ 32
   \<and> snd (cmd_coprocessor_run example_libc example_coproc_env
        [''culvert run'', ''0xffffffff'', ''0x2000000'']) = Return 1
   \<and> ScuWritel 0xa00 0 \<notin> set (fst (cmd_coprocessor_run example_libc example_coproc_env
        [''culvert run'', ''0xffffffff'', ''0x2000000'']))
   \<and> SiphonIn 0xFFFFFFFF 0x2000000 \<notin> set (fst (cmd_coprocessor_run example_libc example_coproc_env
        [''culvert run'', ''0xffffffff'', ''0x2000000'']))"
proof -
  have r1: "\<forall>c arg. KEY_OPT c arg \<in> set [KEY_OPT CHR ''S'' ''0xffffffff'', KEY_OPT CHR ''L'' ''0x1000'']
      \<longrightarrow> ul_value (strtoul example_libc arg) \<le> UINT32_MAX"
    by (auto simp: example_defs UINT32_MAX_def)
  have r2: "\<forall>c arg. KEY_OPT c arg \<in> set [KEY_OPT CHR ''S'' ''0x80000000'', KEY_OPT CHR ''L'' ''0x1000'']
      \<longrightarrow> ul_value (strtoul example_libc arg) \<le> UINT32_MAX"
    by (auto simp: example_defs UINT32_MAX_def)
  have w: "UINT32_MAX - (0x1000 :: ulong) < 0xFFFFFFFF"
    by (simp add: UINT32_MAX_def)
  have c1: "cmd_read_ram example_libc example_ram_env
        [KEY_OPT CHR ''S'' ''0xffffffff'', KEY_OPT CHR ''L'' ''0x1000'']
      = ([ArgpError ''RAM region start address + length exceeds address space''], Exit 64)"
    by (simp add: cmd_read_ram_def example_ram_parse_wrap)
  note t1 = wrapping_range_rejected [where lc = example_libc and env = example_ram_env
      and keys = "[KEY_OPT CHR ''S'' ''0xffffffff'', KEY_OPT CHR ''L'' ''0x1000'']"
      and argv = "[''culvert run'', ''0xffffffff'', ''0x2000000'']"
      and b = "\<lparr>mem_base = 0xFFFFFFFF, mem_size = 0x2000000, connection = no_connection\<rparr>"
      and cenv = example_coproc_env and r = "0xa00" and v = 0 and x = "0xFFFFFFFF"
      and y = "0x2000000"]
  note t2 = wrapping_range_rejected [where lc = example_libc and env = example_ram_env
      and keys = "[KEY_OPT CHR ''S'' ''0x80000000'', KEY_OPT CHR ''L'' ''0x1000'']"
      and argv = "[''culvert run'', ''0xffffffff'', ''0x2000000'']"
      and b = "\<lparr>mem_base = 0xFFFFFFFF, mem_size = 0x2000000, connection = no_connection\<rparr>"
      and cenv = example_coproc_env and r = "0xa00" and v = 0 and x = "0xFFFFFFFF"
      and y = "0x2000000"]
  from t1 r1 w example_supplied have "\<exists>m. cmd_read_ram example_libc example_ram_env
        [KEY_OPT CHR ''S'' ''0xffffffff'', KEY_OPT CHR ''L'' ''0x1000'']
      = ([ArgpError m], Exit argp_err_exit_status)"
    by simp
  moreover from t2 r2 example_ram_cmd_ok example_supplied
  have "unat (0x80000000 :: ulong) + unat (0x1000 :: ulong) < 2 ^ 32"
    by simp
  moreover from t1 example_run_parse_wrap
  have "snd (cmd_coprocessor_run example_libc example_coproc_env
        [''culvert run'', ''0xffffffff'', ''0x2000000'']) = Return 1
   \<and> ScuWritel 0xa00 0 \<notin> set (fst (cmd_coprocessor_run example_libc example_coproc_env
        [''culvert run'', ''0xffffffff'', ''0x2000000'']))
   \<and> SiphonIn 0xFFFFFFFF 0x2000000 \<notin> set (fst (cmd_coprocessor_run example_libc example_coproc_env
        [''culvert run'', ''0xffffffff'', ''0x2000000'']))"
    by (simp add: EXIT_FAILURE_def)
  ultimately show ?thesis using c1 example_ram_cmd_ok by simp
qed

text \<open>
  Not covered by the amended statement: an \<open>-S\<close> or \<open>-L\<close> value above UINT32_MAX makes
  \<open>parse_opt_ram\<close> return ARGP_KEY_ERROR; \<open>parse_subcommand\<close> drops that code, so the
  command goes on with the value, and the 64-bit sum in the range check can wrap.
\<close>

lemma read_ram_parse_error_ignored:
  "cmd_read_ram example_libc example_ram_env
     [KEY_OPT CHR ''L'' ''2'', KEY_OPT CHR ''S'' ''0xffffffffffffffff'']
   = ([HostInit 0, HostGetAhb, SocProbe, Call ''sdmc_get'', SdmcGetDram,
       SiphonOut 0xFFFFFFFFFFFFFFFF 2, Call ''soc_destroy'', Call ''host_destroy''], Return 0)"
  by (simp add: cmd_read_ram_def ram_parse_def parse_opt_ram_def ram_args0_def
      read_ram_session_def ram_siphon_def example_defs Let_def ULONG_MAX_def UINT32_MAX_def)

subsection \<open>The number of connection fields\<close>

lemma parse_via_count:
  assumes "argi < length argv"
  shows "fst (parse_via lc argi argv args) = 0 \<longleftrightarrow>
           (length argv - argi - 1 = 1 \<or> length argv - argi - 1 = 5)"
    and "fst (parse_via lc argi argv args) \<noteq> 0 \<Longrightarrow> parse_via lc argi argv args = (- EINVAL, args)"
  using assms by (auto simp: parse_via_def Let_def EINVAL_def)

lemma parse_via_rejects:
  assumes "length argv - argi - 1 \<noteq> 1" and "length argv - argi - 1 \<noteq> 5"
  shows "parse_via lc argi argv args = (- EINVAL, args)"
  using assms by (auto simp: parse_via_def Let_def)

lemma parse_via_five:
  assumes "length argv = argi + 6"
  shows "parse_via lc argi argv args =
     (0, args\<lparr>interface := Some (argv ! (argi + 1)), ip := Some (argv ! (argi + 2)),
              port := atoi lc (argv ! (argi + 3)), username := Some (argv ! (argi + 4)),
              password := Some (argv ! (argi + 5))\<rparr>)"
  using assms by (simp add: parse_via_def Let_def)

lemma run_keys_via_rejected:
  assumes "length post \<noteq> 1" and "length post \<noteq> 5"
    and "length argv = n + length pre + 2 + length post"
  shows "\<exists>evs. argp_keys (parse_opt_run lc argv) (map KEY_ARG (pre @ ''via'' # post)) n a
           = Exited evs argp_err_exit_status
         \<and> (evs = [ArgpUsage] \<or> (\<exists>m. evs = [ArgpError m]))"
  using assms
proof (induction pre arbitrary: n a)
  case Nil
  then have "parse_via lc (n + 1) argv (connection a) = (- EINVAL, connection a)"
    by (intro parse_via_rejects) auto
  then show ?case by (simp add: parse_opt_run_def EINVAL_def)
next
  case (Cons p pre)
  show ?case
  proof (cases "parse_opt_run lc argv (KEY_ARG p) n a")
    case (Continue a')
    from Cons.prems have "length argv = Suc n + length pre + 2 + length post" by simp
    from Cons.IH [OF Cons.prems(1,2) this, of a'] Continue show ?thesis by simp
  next
    case (Failed e a')
    then show ?thesis
      by (auto simp: parse_opt_run_def Let_def split: if_splits prod.splits)
  next
    case (Exited evs st)
    with parse_opt_run_Exited [OF Exited] show ?thesis by simp
  qed
qed

lemma run_via_rejected:
  assumes "tl argv = pre @ ''via'' # post" and "argv \<noteq> []"
    and "length post \<noteq> 1" and "length post \<noteq> 5"
  shows "\<exists>evs. cmd_coprocessor_run lc env argv = (evs, Exit argp_err_exit_status)
          \<and> (evs = [ArgpUsage] \<or> (\<exists>m. evs = [ArgpError m]))"
proof -
  from assms(1,2) have "length argv = 0 + length pre + 2 + length post"
    by (cases argv) auto
  from run_keys_via_rejected [OF assms(3,4) this, of lc run_args0]
  show ?thesis by (auto simp: cmd_coprocessor_run_def run_parse_def assms(1))
qed

lemma probe_parse_opt_Exited:
  "probe_parse_opt lc k n a = Exited evs st \<Longrightarrow>
     st = argp_err_exit_status \<and> (\<exists>m. evs = [ArgpError m])"
  by (auto simp: probe_parse_opt_def Let_def split: key.splits if_splits)

lemma probe_parse_opt_Failed: "probe_parse_opt lc k n a \<noteq> Failed e a'"
  by (auto simp: probe_parse_opt_def Let_def split: key.splits if_splits)

lemma probe_parse_opt_count:
  "probe_parse_opt lc k n a = Continue a' \<Longrightarrow>
     key_arg_count a' = key_arg_count a + (if is_arg k then 1 else 0)"
  by (auto simp: probe_parse_opt_def Let_def split: key.splits if_splits)

lemma probe_parse_opt_end:
  "probe_parse_opt lc KEY_END n a = Continue a' \<Longrightarrow>
     \<not> (key_arg_count a' > 1 \<and> key_arg_count a' \<noteq> 5)"
  by (auto simp: probe_parse_opt_def Let_def split: if_splits)

lemma probe_keys_count:
  "argp_keys (probe_parse_opt lc) ks n a = Continue a' \<Longrightarrow>
     key_arg_count a' = key_arg_count a + int (length (filter is_arg ks))
     \<and> \<not> (key_arg_count a' > 1 \<and> key_arg_count a' \<noteq> 5)"
proof (induction ks arbitrary: n a)
  case Nil
  then have e: "probe_parse_opt lc KEY_END n a = Continue a'" by simp
  from probe_parse_opt_count [OF e] probe_parse_opt_end [OF e] show ?case by simp
next
  case (Cons k ks)
  from Cons.prems obtain a1 where
    step: "probe_parse_opt lc k n a = Continue a1" and
    rest: "argp_keys (probe_parse_opt lc) ks (case k of KEY_ARG _ \<Rightarrow> Suc n | _ \<Rightarrow> n) a1 = Continue a'"
    by (auto split: parsed.splits)
  from probe_parse_opt_count [OF step] Cons.IH [OF rest] show ?case by simp
qed

lemma probe_keys_not_Failed: "argp_keys (probe_parse_opt lc) ks n a \<noteq> Failed e a'"
  by (induction ks arbitrary: n a) (auto simp: probe_parse_opt_Failed split: parsed.splits)

lemma probe_count_rejected:
  assumes "length (filter is_arg keys) \<noteq> 0" and "length (filter is_arg keys) \<noteq> 1"
    and "length (filter is_arg keys) \<noteq> 5"
  shows "\<exists>m. cmd_probe lc env keys = ([ArgpError m], Exit argp_err_exit_status)"
proof (cases "probe_parse lc keys")
  case (Continue a)
  from probe_keys_count [OF Continue [unfolded probe_parse_def]]
  have "key_arg_count a = int (length (filter is_arg keys))"
    and "\<not> (key_arg_count a > 1 \<and> key_arg_count a \<noteq> 5)"
    by (auto simp: probe_args0_def)
  with assms have False by arith
  then show ?thesis ..
next
  case (Failed e a)
  then show ?thesis by (simp add: probe_parse_def probe_keys_not_Failed)
next
  case (Exited evs st)
  from argp_keys_Exited [OF Exited [unfolded probe_parse_def]] probe_parse_opt_Exited
  have "st = argp_err_exit_status \<and> (\<exists>m. evs = [ArgpError m])" by blast
  with Exited show ?thesis by (auto simp: cmd_probe_def)
qed

lemma probe_args_accepted:
  "argp_keys (probe_parse_opt lc) (map KEY_ARG xs) n a = Exited evs st \<Longrightarrow>
     key_arg_count a + int (length xs) > 1 \<and> key_arg_count a + int (length xs) \<noteq> 5"
proof (induction xs arbitrary: n a)
  case Nil
  then show ?case by (auto simp: probe_parse_opt_def Let_def split: if_splits)
next
  case (Cons x xs)
  have "\<exists>a1. probe_parse_opt lc (KEY_ARG x) n a = Continue a1
          \<and> key_arg_count a1 = key_arg_count a + 1"
    by (simp add: probe_parse_opt_def Let_def)
  then obtain a1 where step: "probe_parse_opt lc (KEY_ARG x) n a = Continue a1"
    and cnt: "key_arg_count a1 = key_arg_count a + 1"
    by blast
  from Cons.prems step have "argp_keys (probe_parse_opt lc) (map KEY_ARG xs) (Suc n) a1 = Exited evs st"
    by simp
  from Cons.IH [OF this] cnt show ?case by simp
qed

lemma probe_fields_accepted:
  assumes "length xs = 1 \<or> length xs = 5"
  shows "\<exists>a. probe_parse lc (map KEY_ARG xs) = Continue a"
proof (cases "probe_parse lc (map KEY_ARG xs)")
  case (Continue a)
  then show ?thesis by simp
next
  case (Failed e a)
  then show ?thesis by (simp add: probe_parse_def probe_keys_not_Failed)
next
  case (Exited evs st)
  from probe_args_accepted [OF Exited [unfolded probe_parse_def]] assms
  show ?thesis by (auto simp: probe_args0_def)
qed

text \<open>
  C1. \<open>parse_via\<close> returns 0 exactly when 1 or 5 fields follow the word \<open>via\<close>. A
  \<open>via\<close> clause of coprocessor run with another number of fields ends the process
  with argp's usage status, and so does the probe command with 2, 3, 4 or more than 5
  positional fields: the only event is argp's message, no host is initialised. With 1
  or 5 positional fields the parser of probe accepts. (With none it accepts too: the
  claim is about the nonzero counts.)
\<close>

theorem connection_field_count:
  "(argi < length argv \<longrightarrow>
      (fst (parse_via lc argi argv args) = 0 \<longleftrightarrow>
         (length argv - argi - 1 = 1 \<or> length argv - argi - 1 = 5)))
   \<and> (run_argv \<noteq> [] \<and> tl run_argv = pre @ ''via'' # post \<and> length post \<noteq> 1 \<and> length post \<noteq> 5 \<longrightarrow>
        (\<exists>evs. cmd_coprocessor_run lc env run_argv = (evs, Exit argp_err_exit_status)
           \<and> (evs = [ArgpUsage] \<or> (\<exists>m. evs = [ArgpError m]))))
   \<and> (length (filter is_arg keys) \<noteq> 0 \<and> length (filter is_arg keys) \<noteq> 1
        \<and> length (filter is_arg keys) \<noteq> 5 \<longrightarrow>
        (\<exists>m. cmd_probe lc penv keys = ([ArgpError m], Exit argp_err_exit_status)))
   \<and> (length xs = 1 \<or> length xs = 5 \<longrightarrow> (\<exists>a. probe_parse lc (map KEY_ARG xs) = Continue a))"
  using parse_via_count(1) [of argi argv lc args] run_via_rejected [of run_argv pre post lc env]
    probe_count_rejected [of keys lc penv] probe_fields_accepted [of xs lc]
  by blast

theorem connection_field_count_witness:
  "fst (parse_via example_libc 3
          [''culvert run'', ''0xb0000000'', ''0x2000000'', ''via'', ''eth0''] no_connection) = 0
   \<and> cmd_coprocessor_run example_libc example_coproc_env
        [''culvert run'', ''0xb0000000'', ''0x2000000'', ''via'', ''eth0'', ''10.0.0.1'']
      = ([ArgpError ''Failed to parse connection arguments''], Exit 64)
   \<and> cmd_probe example_libc example_probe_env [KEY_ARG ''eth0'', KEY_ARG ''10.0.0.1'']
      = ([ArgpError ''Wrong number of arguments. Either 1 or 5''], Exit 64)
   \<and> probe_parse example_libc [KEY_ARG ''eth0'']
      = Continue \<lparr>key_arg_count = 1, conn = no_connection\<lparr>interface := Some ''eth0''\<rparr>,
                   iface = None, requirement = 0, list_ifaces = 0\<rparr>"
  using connection_field_count [where argi = 3
      and argv = "[''culvert run'', ''0xb0000000'', ''0x2000000'', ''via'', ''eth0'']"
      and lc = example_libc and args = no_connection
      and run_argv = "[''culvert run'', ''0xb0000000'', ''0x2000000'', ''via'', ''eth0'', ''10.0.0.1'']"
      and pre = "[''0xb0000000'', ''0x2000000'']" and post = "[''eth0'', ''10.0.0.1'']"
      and env = example_coproc_env
      and keys = "[KEY_ARG ''eth0'', KEY_ARG ''10.0.0.1'']" and penv = example_probe_env
      and xs = "[''eth0'']"]
  by (simp add: cmd_coprocessor_run_def run_parse_def parse_opt_run_def parse_via_def
      run_args0_def cmd_probe_def probe_parse_def probe_parse_opt_def probe_args0_def
      example_defs Let_def ULONG_MAX_def coproc_consts argp_err_exit_status_def EINVAL_def
      bm_permissive_def)

text \<open>
  \<open>parse_via\<close> validates the number of fields only, not their contents: it takes five
  fields as they are, and with an empty password the command calls \<open>host_init_new\<close>
  with the connection arguments it built.
\<close>

lemma blank_password_accepted:
  "parse_via example_libc 3
     [''culvert run'', ''0x80000000'', ''0x2000000'', ''via'', ''eth0'', ''10.0.0.1'', ''2222'',
      ''admin'', []] no_connection
   = (0, \<lparr>interface = Some ''eth0'', ip = Some ''10.0.0.1'', username = Some ''admin'',
          password = Some [], port = 2222\<rparr>)
   \<and> hd (fst (cmd_coprocessor_run example_libc example_coproc_env
        [''culvert run'', ''0x80000000'', ''0x2000000'', ''via'', ''eth0'', ''10.0.0.1'', ''2222'',
         ''admin'', []]))
     = HostInitNew \<lparr>interface = Some ''eth0'', ip = Some ''10.0.0.1'', username = Some ''admin'',
          password = Some [], port = 2222\<rparr>"
  by (simp add: parse_via_def cmd_coprocessor_run_def run_parse_def parse_opt_run_def
      run_args0_def no_connection_def coprocessor_run_session_def example_defs Let_def
      ULONG_MAX_def UINT32_MAX_def coproc_consts split: prod.splits)

lemma blank_password_negotiation:
  assumes "length argv = argi + 6" and "argv ! (argi + 5) = []"
  shows "fst (parse_via lc argi argv args) = 0
    \<and> host_init_new opens (snd (parse_via lc argi argv args)) = ([], Inl MalformedConnection)"
  using assms by (simp add: parse_via_five host_init_new_def blank_def)

text \<open>
  C4. Five fields whose password is blank: \<open>parse_via\<close> takes them (it counts the
  fields) and the connection arguments it builds are refused by \<open>host_init_new\<close> with
  MalformedConnection, before any network operation (no event). One field followed by
  trailing ones, 2, 3, 4 or more than 5 fields in all: \<open>parse_via\<close> returns \<open>-EINVAL\<close>
  and leaves the connection arguments untouched, and coprocessor run ends with argp's
  message, \<open>host_init_new\<close> not being called.
\<close>

theorem malformed_connection_rejected:
  "(length argv = argi + 6 \<and> argv ! (argi + 5) = [] \<longrightarrow>
      fst (parse_via lc argi argv args) = 0
      \<and> host_init_new opens (snd (parse_via lc argi argv args)) = ([], Inl MalformedConnection))
   \<and> (2 \<le> length argv - argi - 1 \<and> length argv - argi - 1 \<noteq> 5 \<longrightarrow>
        parse_via lc argi argv args = (- EINVAL, args))
   \<and> (run_argv \<noteq> [] \<and> tl run_argv = pre @ ''via'' # post \<and> 2 \<le> length post \<and> length post \<noteq> 5 \<longrightarrow>
        (\<exists>evs. cmd_coprocessor_run lc env run_argv = (evs, Exit argp_err_exit_status)
           \<and> (evs = [ArgpUsage] \<or> (\<exists>m. evs = [ArgpError m]))))"
  using blank_password_negotiation [of argv argi lc args opens]
    parse_via_rejects [of argv argi lc args] run_via_rejected [of run_argv pre post lc env]
  by auto

theorem malformed_connection_rejected_witness:
  "host_init_new (\<lambda>c. True)
     (snd (parse_via example_libc 3
        [''culvert run'', ''0x80000000'', ''0x2000000'', ''via'', ''eth0'', ''10.0.0.1'', ''2222'',
         ''admin'', []] no_connection))
   = ([], Inl MalformedConnection)
   \<and> parse_via example_libc 3
     [''culvert run'', ''0x80000000'', ''0x2000000'', ''via'', ''eth0'', ''10.0.0.1''] no_connection
   = (- 22, no_connection)
   \<and> cmd_coprocessor_run example_libc example_coproc_env
        [''culvert run'', ''0x80000000'', ''0x2000000'', ''via'', ''eth0'', ''10.0.0.1'']
      = ([ArgpError ''Failed to parse connection arguments''], Exit 64)"
  using malformed_connection_rejected [where argi = 3 and lc = example_libc
      and args = no_connection and opens = "\<lambda>c. True"
      and argv = "[''culvert run'', ''0x80000000'', ''0x2000000'', ''via'', ''eth0'', ''10.0.0.1'',
        ''2222'', ''admin'', []]"
      and run_argv = "[''culvert run'', ''0x80000000'', ''0x2000000'', ''via'', ''eth0'', ''10.0.0.1'']"
      and pre = "[''0x80000000'', ''0x2000000'']" and post = "[''eth0'', ''10.0.0.1'']"
      and env = example_coproc_env]
    malformed_connection_rejected [where argi = 3 and lc = example_libc
      and args = no_connection and opens = "\<lambda>c. True"
      and argv = "[''culvert run'', ''0x80000000'', ''0x2000000'', ''via'', ''eth0'', ''10.0.0.1'']"
      and run_argv = "[''culvert run'', ''0x80000000'', ''0x2000000'', ''via'', ''eth0'', ''10.0.0.1'']"
      and pre = "[''0x80000000'', ''0x2000000'']" and post = "[''eth0'', ''10.0.0.1'']"
      and env = example_coproc_env]
  by (simp add: cmd_coprocessor_run_def run_parse_def parse_opt_run_def parse_via_def
      run_args0_def example_defs Let_def ULONG_MAX_def coproc_consts argp_err_exit_status_def
      EINVAL_def)

subsection \<open>Skipping a bridge driver\<close>

lemma disable_keeps_names:
  "disable_bridge_driver n reg = Inr reg' \<Longrightarrow> map name reg' = map name reg"
  by (auto simp: disable_bridge_driver_def split: if_splits)

lemma main_options_append:
  "main_options (xs @ ys) s =
     (case main_options xs s of
        Continue s' \<Rightarrow> main_options ys s'
      | Failed e s' \<Rightarrow> Failed e s'
      | Exited evs st \<Rightarrow> Exited evs st)"
  by (induction xs arbitrary: s) (auto split: parsed.splits)

lemma main_options_reach:
  assumes "\<forall>(c, arg) \<in> set pre. c = CHR ''q'' \<or> c = CHR ''v''
             \<or> (c = CHR ''s'' \<and> arg \<in> set (map name (registry s)))"
  shows "\<exists>s'. main_options pre s = Continue s' \<and> map name (registry s') = map name (registry s)"
  using assms
proof (induction pre arbitrary: s)
  case Nil
  show ?case by simp
next
  case (Cons o1 pre)
  obtain c arg where o1: "o1 = (c, arg)" by (cases o1)
  from Cons.prems o1 have
    head: "c = CHR ''q'' \<or> c = CHR ''v'' \<or> (c = CHR ''s'' \<and> arg \<in> set (map name (registry s)))"
    by simp
  have "\<exists>s1. main_parse_opt c arg s = Continue s1 \<and> map name (registry s1) = map name (registry s)"
    using head
    by (auto simp: main_parse_opt_def disable_bridge_driver_def comp_def
        intro!: map_cong split: sum.splits)
  then obtain s1 where s1: "main_parse_opt c arg s = Continue s1"
    "map name (registry s1) = map name (registry s)" by blast
  from Cons.prems s1(2) have
    "\<forall>(c, arg) \<in> set pre. c = CHR ''q'' \<or> c = CHR ''v''
       \<or> (c = CHR ''s'' \<and> arg \<in> set (map name (registry s1)))"
    by simp
  from Cons.IH [OF this] s1 o1 show ?case by simp
qed

text \<open>
  C7. When the options are parsed as far as a \<open>-s\<close> whose name is not in the registry
  (the options before it being \<open>-q\<close>, \<open>-v\<close> or \<open>-s\<close> with a known name), the
  process prints to stderr the message that quotes that name, and exits with
  EXIT_FAILURE; that is all it does: whatever follows on the command line, no command
  is called, so no bridge is negotiated.
\<close>

theorem unknown_bridge_name_is_fatal:
  assumes "n \<notin> set (map name reg)"
    and "\<forall>(c, arg) \<in> set pre. c = CHR ''q'' \<or> c = CHR ''v''
           \<or> (c = CHR ''s'' \<and> arg \<in> set (map name reg))"
  shows "culvert_main fn reg (pre @ (CHR ''s'', n) # rest) args
           = ([Stderr (''Error: '' @ [CHR 0x27] @ n @ [CHR 0x27]
                        @ '' not a recognized bridge name (use '-l' to list)'')],
              EXIT_FAILURE)"
proof -
  let ?s0 = "\<lparr>registry = reg, log = level_info\<rparr>"
  from main_options_reach [of pre ?s0] assms(2) obtain s' where
    s': "main_options pre ?s0 = Continue s'" "map name (registry s') = map name reg"
    by auto
  from s'(2) assms(1) have "disable_bridge_driver n (registry s') = Inl UnknownDriver"
    by (simp add: disable_bridge_driver_def)
  then have "main_parse_opt CHR ''s'' n s' = Exited [Stderr (not_recognized n)] EXIT_FAILURE"
    by (simp add: main_parse_opt_def)
  with s'(1) have "main_options (pre @ (CHR ''s'', n) # rest) ?s0
      = Exited [Stderr (not_recognized n)] EXIT_FAILURE"
    by (simp add: main_options_append)
  then show ?thesis by (simp add: culvert_main_def not_recognized_def)
qed

theorem unknown_bridge_name_is_fatal_witness:
  "culvert_main (\<lambda>c a r. ([HostInit 0], Return 0)) example_registry
     [(CHR ''v'', []), (CHR ''s'', ''jtag''), (CHR ''s'', ''bogus'')] [''probe'']
   = ([Stderr ''Error: 'bogus' not a recognized bridge name (use '-l' to list)''], 1)"
  using unknown_bridge_name_is_fatal [where n = "''bogus''" and reg = example_registry
      and pre = "[(CHR ''v'', []), (CHR ''s'', ''jtag'')]" and rest = "[]"
      and fn = "\<lambda>c a r. ([HostInit 0], Return 0)" and args = "[''probe'']"]
  by (simp add: example_registry_def EXIT_FAILURE_def)

end
